theory Spec2Isabelle
  imports Main
begin

section \<open>Shared data: peer ids and multiaddrs\<close>

text \<open>
  A peer id is compared with \<^verbatim>\<open>equals\<close> (byte equality) and printed with
  \<^verbatim>\<open>toString\<close>; it is represented by its canonical string.

  The multiaddr library is an external dependency. A multiaddr is the list of its string
  tuples \<^verbatim>\<open>stringTuples()\<close>, a protocol with its optional value; protocol codes are
  represented by the names the library's table gives them (0x04 ip4, 0x29 ip6, 0x36 dns4,
  0x37 dns6, 290 p2p-circuit, 400 unix, 421 p2p). The string keys the sources keep in
  their sets and maps are the values of \<^verbatim>\<open>toString\<close>.
\<close>

type_synonym PeerId = string

datatype Component = Component (cname: string) (cvalue: "string option")

type_synonym Multiaddr = "Component list"

definition component_str :: "Component \<Rightarrow> string" where
  "component_str c =
     ''/'' @ cname c @ (case cvalue c of None \<Rightarrow> [] | Some v \<Rightarrow> ''/'' @ v)"

definition toString :: "Multiaddr \<Rightarrow> string" where
  "toString ma = (if ma = [] then ''/'' else concat (map component_str ma))"

text \<open>\<^verbatim>\<open>ma.protos().pop()?.path === true\<close>: the last protocol is a path protocol
  (the library's table marks unix only).\<close>

definition lastProtoPath :: "Multiaddr \<Rightarrow> bool" where
  "lastProtoPath ma = (case rev ma of [] \<Rightarrow> False | c # _ \<Rightarrow> cname c = ''unix'')"

text \<open>
  \<^verbatim>\<open>getPeerId()\<close> is the library's, and its releases differ: the embeddings below take
  it as a parameter. Two of its behaviours, to compute with: the value of the last p2p
  tuple of the address (release 12.1.3), and the same where a p2p-circuit tuple forgets
  the p2p tuples before it, the relay's id not being the target's (release 12.3.3).
\<close>

fun last_p2p :: "string option \<Rightarrow> Multiaddr \<Rightarrow> string option" where
  "last_p2p acc [] = acc"
| "last_p2p acc (c # cs) =
     (if cname c = ''p2p'' then last_p2p (cvalue c) cs else last_p2p acc cs)"

definition getPeerId_last :: "Multiaddr \<Rightarrow> string option" where
  "getPeerId_last ma = last_p2p None ma"

fun target_p2p :: "string option \<Rightarrow> Multiaddr \<Rightarrow> string option" where
  "target_p2p acc [] = acc"
| "target_p2p acc (c # cs) =
     (if cname c = ''p2p'' then target_p2p (cvalue c) cs
      else if cname c = ''p2p-circuit'' then target_p2p None cs
      else target_p2p acc cs)"

definition getPeerId_target :: "Multiaddr \<Rightarrow> string option" where
  "getPeerId_target ma = target_p2p None ma"

text \<open>\<^verbatim>\<open>ma.encapsulate(`/p2p/${peerId}`)\<close> appends the p2p tuple.\<close>

definition encapsulate_p2p :: "Multiaddr \<Rightarrow> PeerId \<Rightarrow> Multiaddr" where
  "encapsulate_p2p ma pid = ma @ [Component ''p2p'' (Some pid)]"

text \<open>A JavaScript \<^verbatim>\<open>Map\<close> keeps its entries in insertion order, and \<^verbatim>\<open>set\<close> on a
  present key replaces the value in place.\<close>

fun map_set :: "'k \<Rightarrow> 'v \<Rightarrow> ('k \<times> 'v) list \<Rightarrow> ('k \<times> 'v) list" where
  "map_set k v [] = [(k, v)]"
| "map_set k v ((k', v') # r) =
     (if k = k' then (k, v) # r else (k', v') # map_set k v r)"

section \<open>Peer store: \<^verbatim>\<open>bytesToPeer\<close>\<close>

record Tag =
  tag_value :: nat
  expiry :: "int option"

record AddressPB =
  pb_multiaddr :: Multiaddr
  pb_isCertified :: "bool option"
  pb_lastFailure :: "int option"
  pb_lastSuccess :: "int option"

record PeerPB =
  pb_publicKey :: "string option"
  pb_addresses :: "AddressPB list"
  pb_protocols :: "string list"
  pb_metadata :: "(string \<times> string) list"
  pb_tags :: "(string \<times> Tag) list"
  pb_peerRecordEnvelope :: "string option"

record StoreAddress =
  sa_multiaddr :: Multiaddr
  sa_isCertified :: "bool option"
  sa_lastFailure :: "int option"
  sa_lastSuccess :: "int option"

record Peer =
  peer_id :: PeerId
  peer_publicKey :: "string option"
  peer_addresses :: "StoreAddress list"
  peer_protocols :: "string list"
  peer_metadata :: "(string \<times> string) list"
  peer_tags :: "(string \<times> Tag) list"
  peer_peerRecordEnvelope :: "string option"

definition tag_expired :: "int \<Rightarrow> Tag \<Rightarrow> bool" where
  "tag_expired now tag = (case expiry tag of None \<Rightarrow> False | Some e \<Rightarrow> e < now)"

text \<open>The loop over \<^verbatim>\<open>peer.tags.entries()\<close>: an expired tag is skipped, any other is
  set in the new map.\<close>

fun live_tags :: "int \<Rightarrow> (string \<times> Tag) list \<Rightarrow> (string \<times> Tag) list \<Rightarrow> (string \<times> Tag) list" where
  "live_tags now [] tags = tags"
| "live_tags now ((key, tag) # rest) tags =
     (if tag_expired now tag then live_tags now rest tags
      else live_tags now rest (map_set key tag tags))"

definition address_of_pb :: "AddressPB \<Rightarrow> StoreAddress" where
  "address_of_pb a =
     \<lparr> sa_multiaddr = pb_multiaddr a,
       sa_isCertified = (if pb_isCertified a = Some True then Some True else None),
       sa_lastFailure = pb_lastFailure a,
       sa_lastSuccess = pb_lastSuccess a \<rparr>"

text \<open>\<^verbatim>\<open>bytesToPeer(peerId, buf)\<close>, from the decoded protobuf message and the time
  \<^verbatim>\<open>Date.now()\<close> of the read.\<close>

definition bytesToPeer :: "PeerId \<Rightarrow> PeerPB \<Rightarrow> int \<Rightarrow> Peer" where
  "bytesToPeer peerId peer now =
     \<lparr> peer_id = peerId,
       peer_publicKey = pb_publicKey peer,
       peer_addresses = map address_of_pb (pb_addresses peer),
       peer_protocols = pb_protocols peer,
       peer_metadata = pb_metadata peer,
       peer_tags = live_tags now (pb_tags peer) [],
       peer_peerRecordEnvelope = pb_peerRecordEnvelope peer \<rparr>"

section \<open>Errors\<close>

text \<open>A thrown JavaScript error: its \<^verbatim>\<open>name\<close>, \<^verbatim>\<open>message\<close>, \<^verbatim>\<open>code\<close> (when it has
  one) and, for an \<^verbatim>\<open>AggregateError\<close>, its \<^verbatim>\<open>errors\<close>.\<close>

datatype Error =
  Error (err_name: string) (err_message: string) (err_code: "string option")
    (err_errors: "Error list")

definition CodeError :: "string \<Rightarrow> string \<Rightarrow> Error" where
  "CodeError message code = Error ''CodeError'' message (Some code) []"

section \<open>Node facade: \<^verbatim>\<open>Libp2pNode.start\<close> and \<^verbatim>\<open>Libp2pNode.stop\<close>\<close>

text \<open>
  A startable service: \<^verbatim>\<open>start\<close> and \<^verbatim>\<open>stop\<close>, and the optional hooks around them.
  A hook acts on the rest of the world and resolves (\<open>None\<close>) or rejects with an error.
  The node keeps the \<^verbatim>\<open>started\<close> flag; \<open>invoked\<close> records every hook call, in order.
\<close>

datatype Phase = BeforeStart | Start | AfterStart | BeforeStop | Stop | AfterStop

type_synonym 'w hook = "'w \<Rightarrow> Error option \<times> 'w"

record 'w Startable =
  service_name :: string
  beforeStart :: "'w hook option"
  start_hook :: "'w hook"
  afterStart :: "'w hook option"
  beforeStop :: "'w hook option"
  stop_hook :: "'w hook"
  afterStop :: "'w hook option"

record 'w Libp2pNode =
  started :: bool
  world :: 'w
  invoked :: "(string \<times> Phase) list"

record 'w NodeInit =
  services :: "'w Startable list"
  keychain_self :: "'w hook"

text \<open>
  \<^verbatim>\<open>await Promise.all(this.services.map(async service => { ... }))\<close>: the hook of every
  service is called, in the order of the list, and the phase rejects when one of them
  does, with the first rejection (here: the first in the order of the list).
\<close>

fun run_phase :: "Phase \<Rightarrow> ('w Startable \<Rightarrow> 'w hook option) \<Rightarrow> 'w Startable list
    \<Rightarrow> 'w Libp2pNode \<Rightarrow> Error option \<times> 'w Libp2pNode" where
  "run_phase ph sel [] n = (None, n)"
| "run_phase ph sel (s # ss) n =
     (case sel s of
        None \<Rightarrow> run_phase ph sel ss n
      | Some h \<Rightarrow>
          (case h (world n) of (e, w') \<Rightarrow>
             (case run_phase ph sel ss
                     (n\<lparr> world := w', invoked := invoked n @ [(service_name s, ph)] \<rparr>) of
                (e', n') \<Rightarrow> ((case e of Some x \<Rightarrow> Some x | None \<Rightarrow> e'), n'))))"

definition stop :: "'w NodeInit \<Rightarrow> 'w Libp2pNode \<Rightarrow> Error option \<times> 'w Libp2pNode" where
  "stop init n =
     (if \<not> started n then (None, n)
      else
        (case run_phase BeforeStop beforeStop (services init) (n\<lparr> started := False \<rparr>) of
           (Some e, n1) \<Rightarrow> (Some e, n1)
         | (None, n1) \<Rightarrow>
             (case run_phase Stop (\<lambda>s. Some (stop_hook s)) (services init) n1 of
                (Some e, n2) \<Rightarrow> (Some e, n2)
              | (None, n2) \<Rightarrow> run_phase AfterStop afterStop (services init) n2)))"

text \<open>The three phases inside the \<^verbatim>\<open>try\<close> block of \<^verbatim>\<open>start\<close>.\<close>

definition start_phases :: "'w NodeInit \<Rightarrow> 'w Libp2pNode \<Rightarrow> Error option \<times> 'w Libp2pNode" where
  "start_phases init n =
     (case run_phase BeforeStart beforeStart (services init) n of
        (Some e, n1) \<Rightarrow> (Some e, n1)
      | (None, n1) \<Rightarrow>
          (case run_phase Start (\<lambda>s. Some (start_hook s)) (services init) n1 of
             (Some e, n2) \<Rightarrow> (Some e, n2)
           | (None, n2) \<Rightarrow> run_phase AfterStart afterStart (services init) n2))"

text \<open>
  \<^verbatim>\<open>start\<close>: the flag is set before anything is awaited; the keychain calls stand
  before the \<^verbatim>\<open>try\<close>, so their rejection leaves the flag set; a rejection inside the
  \<^verbatim>\<open>try\<close> stops the node and is thrown again (a rejection of that \<^verbatim>\<open>stop\<close> replaces it).
\<close>

definition start :: "'w NodeInit \<Rightarrow> 'w Libp2pNode \<Rightarrow> Error option \<times> 'w Libp2pNode" where
  "start init n =
     (if started n then (None, n)
      else
        (case keychain_self init (world n) of
           (Some e, w) \<Rightarrow> (Some e, n\<lparr> started := True, world := w \<rparr>)
         | (None, w) \<Rightarrow>
             (case start_phases init (n\<lparr> started := True, world := w \<rparr>) of
                (None, n1) \<Rightarrow> (None, n1)
              | (Some err, n1) \<Rightarrow>
                  (case stop init n1 of
                     (Some e, n2) \<Rightarrow> (Some e, n2)
                   | (None, n2) \<Rightarrow> (Some err, n2)))))"

text \<open>\<^verbatim>\<open>await f(); await g()\<close>: a rejection of the first call ends the sequence.\<close>

definition and_then :: "('s \<Rightarrow> Error option \<times> 's) \<Rightarrow> ('s \<Rightarrow> Error option \<times> 's)
    \<Rightarrow> 's \<Rightarrow> Error option \<times> 's" where
  "and_then f g s = (case f s of (Some e, s') \<Rightarrow> (Some e, s') | (None, s') \<Rightarrow> g s')"

text \<open>A node with one service, over a world that counts.\<close>

definition demo_service :: "nat Startable" where
  "demo_service =
     \<lparr> service_name = ''svc'',
       beforeStart = Some (\<lambda>w. (None, w + 1)),
       start_hook = (\<lambda>w. (None, w + 10)),
       afterStart = None,
       beforeStop = None,
       stop_hook = (\<lambda>w. (None, w + 100)),
       afterStop = None \<rparr>"

definition demo_init :: "nat NodeInit" where
  "demo_init = \<lparr> services = [demo_service], keychain_self = (\<lambda>w. (None, w)) \<rparr>"

section \<open>Dial queue\<close>

text \<open>
  The collaborators of the dial queue are parameters: the connection gater's two
  predicates (each may be absent), the peer store's address book, the recursive resolver
  \<^verbatim>\<open>resolveMultiaddrs\<close>, the transport manager's \<^verbatim>\<open>transportForMultiaddr\<close> (whether
  some transport takes the address), the configured \<^verbatim>\<open>addressSorter\<close> and the
  multiaddr library's \<^verbatim>\<open>getPeerId()\<close>. They are taken to resolve; the rejections
  modelled are those \<^verbatim>\<open>DialQueue\<close> throws itself.
\<close>

record Address =
  multiaddr :: Multiaddr
  isCertified :: bool

record DialQueueComponents =
  self_peerId :: PeerId
  denyDialPeer :: "(PeerId \<Rightarrow> bool) option"
  denyDialMultiaddr :: "(Multiaddr \<Rightarrow> bool) option"
  addressBook_get :: "PeerId \<Rightarrow> Address list"
  resolveMultiaddrs :: "Multiaddr \<Rightarrow> Multiaddr list"
  transportForMultiaddr :: "Multiaddr \<Rightarrow> bool"
  addressSorter :: "Address \<Rightarrow> Address \<Rightarrow> int"
  maxPeerAddrsToDial :: nat
  dq_getPeerId :: "Multiaddr \<Rightarrow> string option"

datatype PendingDialStatus = Queued | Active | Errored | Succeeded

record PendingDial =
  pd_id :: string
  pd_status :: PendingDialStatus
  pd_peerId :: "PeerId option"
  pd_multiaddrs :: "Multiaddr list"

record DialQueue =
  pendingDials :: "PendingDial list"

subsection \<open>\<^verbatim>\<open>calculateMultiaddrs\<close>\<close>

text \<open>A resolved address keeps its object (and its flag) when resolution gave back the
  same single multiaddr, and is replaced by uncertified addresses otherwise.\<close>

definition resolve_address :: "DialQueueComponents \<Rightarrow> Address \<Rightarrow> Address list" where
  "resolve_address c addr =
     (case resolveMultiaddrs c (multiaddr addr) of
        [m] \<Rightarrow> (if m = multiaddr addr then [addr]
                else [\<lparr> multiaddr = m, isCertified = False \<rparr>])
      | result \<Rightarrow> map (\<lambda>m. \<lparr> multiaddr = m, isCertified = False \<rparr>) result)"

definition resolvedAddresses :: "DialQueueComponents \<Rightarrow> Address list \<Rightarrow> Address list" where
  "resolvedAddresses c addrs = concat (map (resolve_address c) addrs)"

definition filteredAddrs :: "DialQueueComponents \<Rightarrow> Address list \<Rightarrow> Address list" where
  "filteredAddrs c addrs =
     filter (\<lambda>addr. transportForMultiaddr c (multiaddr addr)) (resolvedAddresses c addrs)"

text \<open>The deduplication loop over the map keyed by the string form: a later address with
  a known string only ORs its flag into the entry that is there.\<close>

fun dedupe :: "Address list \<Rightarrow> (string \<times> Address) list \<Rightarrow> (string \<times> Address) list" where
  "dedupe [] dedupedAddrs = dedupedAddrs"
| "dedupe (addr # rest) dedupedAddrs =
     (let maStr = toString (multiaddr addr) in
      case map_of dedupedAddrs maStr of
        Some existing \<Rightarrow>
          dedupe rest
            (map_set maStr (existing\<lparr> isCertified := isCertified existing \<or> isCertified addr \<or> False \<rparr>)
               dedupedAddrs)
      | None \<Rightarrow> dedupe rest (map_set maStr addr dedupedAddrs))"

definition dedupedMultiaddrs :: "DialQueueComponents \<Rightarrow> Address list \<Rightarrow> Address list" where
  "dedupedMultiaddrs c addrs = map snd (dedupe (filteredAddrs c addrs) [])"

definition appendPeerId :: "DialQueueComponents \<Rightarrow> PeerId \<Rightarrow> Address \<Rightarrow> Address" where
  "appendPeerId c peerId addr =
     (if lastProtoPath (multiaddr addr) then addr
      else if dq_getPeerId c (multiaddr addr) = None
        then \<lparr> multiaddr = encapsulate_p2p (multiaddr addr) peerId,
               isCertified = isCertified addr \<rparr>
      else addr)"

definition gated :: "DialQueueComponents \<Rightarrow> Address \<Rightarrow> bool" where
  "gated c addr = (case denyDialMultiaddr c of None \<Rightarrow> False | Some deny \<Rightarrow> deny (multiaddr addr))"

text \<open>
  \<^verbatim>\<open>Array.prototype.sort\<close> with a comparator is stable: for a consistent comparator its
  result is the one of the stable insertion sort that puts \<open>x\<close> before the first \<open>y\<close>
  with \<open>cmp x y \<le> 0\<close>. (For an inconsistent comparator the order is implementation
  defined.)
\<close>

fun sort_insert :: "('a \<Rightarrow> 'a \<Rightarrow> int) \<Rightarrow> 'a \<Rightarrow> 'a list \<Rightarrow> 'a list" where
  "sort_insert cmp x [] = [x]"
| "sort_insert cmp x (y # ys) =
     (if cmp x y \<le> 0 then x # y # ys else y # sort_insert cmp x ys)"

definition js_sort :: "('a \<Rightarrow> 'a \<Rightarrow> int) \<Rightarrow> 'a list \<Rightarrow> 'a list" where
  "js_sort cmp xs = foldr (sort_insert cmp) xs []"

text \<open>From the resolution of the addresses to the sorted list (the function's body
  after the checks on the peer id).\<close>

definition addrsToDial_of ::
    "DialQueueComponents \<Rightarrow> PeerId option \<Rightarrow> Address list \<Rightarrow> Error + Address list" where
  "addrsToDial_of c peerId addrs =
     (let deduped = dedupedMultiaddrs c addrs
      in if length deduped = 0
           then Inl (CodeError ''The dial request has no valid addresses''
                       ''ERR_NO_VALID_ADDRESSES'')
         else if length deduped > maxPeerAddrsToDial c
           then Inl (CodeError ''dial with more addresses than allowed''
                       ''ERR_TOO_MANY_ADDRESSES'')
         else
           (let withPeerId = (case peerId of
                                None \<Rightarrow> deduped
                              | Some p \<Rightarrow> map (appendPeerId c p) deduped);
                gatedAdrs = filter (\<lambda>addr. \<not> gated c addr) withPeerId
            in Inr (js_sort (addressSorter c) gatedAdrs)))"

definition calculateMultiaddrs ::
    "DialQueueComponents \<Rightarrow> PeerId option \<Rightarrow> Address list \<Rightarrow> Error + Address list" where
  "calculateMultiaddrs c peerId addrs =
     (case peerId of
        None \<Rightarrow> addrsToDial_of c None addrs
      | Some p \<Rightarrow>
          (if self_peerId c = p
             then Inl (CodeError ''Tried to dial self'' ''ERR_DIALED_SELF'')
           else if (case denyDialPeer c of None \<Rightarrow> False | Some deny \<Rightarrow> deny p)
             then Inl (CodeError ''The dial request is blocked by gater.allowDialPeer''
                         ''ERR_PEER_DIAL_INTERCEPTED'')
           else addrsToDial_of c (Some p)
                  (if length addrs = 0 then addressBook_get c p else addrs)))"

subsection \<open>\<^verbatim>\<open>dial\<close>: joining a pending dial or creating one\<close>

text \<open>\<^verbatim>\<open>Array.prototype.join()\<close> with its default separator.\<close>

fun js_join :: "string list \<Rightarrow> string" where
  "js_join [] = []"
| "js_join [x] = x"
| "js_join (x # y # r) = x @ '','' @ js_join (y # r)"

definition dial_matches :: "PeerId option \<Rightarrow> Address list \<Rightarrow> PendingDial \<Rightarrow> bool" where
  "dial_matches peerId addrsToDial dial =
     (if pd_peerId dial \<noteq> None \<and> peerId \<noteq> None \<and> pd_peerId dial = peerId then True
      else if js_join (map (\<lambda>a. toString (multiaddr a)) addrsToDial)
              = js_join (map toString (pd_multiaddrs dial)) then True
      else False)"

text \<open>
  \<^verbatim>\<open>dial\<close>, from the target as \<^verbatim>\<open>getPeerAddress\<close> gives it (an optional peer id and
  the multiaddrs) and the \<^verbatim>\<open>randomId()\<close> a new pending dial would get. From the search
  for an existing dial to the push of the new one nothing is awaited, so the step is
  atomic. Its result is a rejection, or the id of the pending dial whose promise the
  invocation awaits and returns.
\<close>

definition dial :: "DialQueueComponents \<Rightarrow> DialQueue \<Rightarrow> PeerId option \<Rightarrow> Multiaddr list
    \<Rightarrow> string \<Rightarrow> (Error + string) \<times> DialQueue" where
  "dial c q peerId multiaddrs newId =
     (case calculateMultiaddrs c peerId
             (map (\<lambda>m. \<lparr> multiaddr = m, isCertified = False \<rparr>) multiaddrs) of
        Inl err \<Rightarrow> (Inl err, q)
      | Inr addrsToDial \<Rightarrow>
          (case find (dial_matches peerId addrsToDial) (pendingDials q) of
             Some existingDial \<Rightarrow> (Inr (pd_id existingDial), q)
           | None \<Rightarrow>
               (Inr newId,
                q\<lparr> pendingDials := pendingDials q @
                     [\<lparr> pd_id = newId, pd_status = Queued, pd_peerId = peerId,
                        pd_multiaddrs = map multiaddr addrsToDial \<rparr>] \<rparr>)))"

text \<open>The \<^verbatim>\<open>finally\<close> of the pending dial's promise removes its entry.\<close>

definition dial_settled :: "DialQueue \<Rightarrow> string \<Rightarrow> DialQueue" where
  "dial_settled q ident = q\<lparr> pendingDials := filter (\<lambda>p. pd_id p \<noteq> ident) (pendingDials q) \<rparr>"

subsection \<open>\<^verbatim>\<open>performDial\<close> and the rejection of a dial\<close>

text \<open>
  One address's job: what the signal said when the job reached the head of the per-peer
  queue and of the dial queue, what the transport manager's \<^verbatim>\<open>dial\<close> gave (\<open>None\<close>
  being \<^verbatim>\<open>null\<close>), and when the job settled.
\<close>

record 'c DialAttempt =
  aborted_in_peer_queue :: bool
  aborted_in_dial_queue :: bool
  transport_dial :: "Error + 'c option"
  settled_at :: nat

definition AbortError :: "string \<Rightarrow> Error" where
  "AbortError message = Error ''Error'' message (Some ''ABORT_ERR'') []"

definition AggregateError :: "Error list \<Rightarrow> Error" where
  "AggregateError errs = Error ''AggregateError'' ''All promises were rejected'' None errs"

definition job_result :: "'c DialAttempt \<Rightarrow> Error + 'c" where
  "job_result a =
     (if aborted_in_peer_queue a
        then Inl (AbortError ''Dial was aborted before reaching the head of the peer dial queue'')
      else if aborted_in_dial_queue a
        then Inl (AbortError ''Dial was aborted before reaching the head of the dial queue'')
      else (case transport_dial a of
              Inl err \<Rightarrow> Inl err
            | Inr None \<Rightarrow> Inl (CodeError ''successful dial led to empty object''
                                 ''ERR_TRANSPORT_DIAL_FAILED'')
            | Inr (Some conn) \<Rightarrow> Inr conn))"

text \<open>\<^verbatim>\<open>Promise.any\<close>: the value of the promise that fulfils first, or an
  \<^verbatim>\<open>AggregateError\<close> of all the rejections, in the order of the promises.\<close>

fun first_fulfilled :: "(nat \<times> 'c) option \<Rightarrow> (nat \<times> (Error + 'c)) list \<Rightarrow> (nat \<times> 'c) option" where
  "first_fulfilled best [] = best"
| "first_fulfilled best ((t, Inl e) # rest) = first_fulfilled best rest"
| "first_fulfilled best ((t, Inr v) # rest) =
     (case best of
        None \<Rightarrow> first_fulfilled (Some (t, v)) rest
      | Some (t0, v0) \<Rightarrow>
          (if t < t0 then first_fulfilled (Some (t, v)) rest
           else first_fulfilled (Some (t0, v0)) rest))"

fun rejections :: "(nat \<times> (Error + 'c)) list \<Rightarrow> Error list" where
  "rejections [] = []"
| "rejections ((t, Inl e) # rest) = e # rejections rest"
| "rejections ((t, Inr v) # rest) = rejections rest"

definition promise_any :: "(nat \<times> (Error + 'c)) list \<Rightarrow> Error + 'c" where
  "promise_any ps =
     (case first_fulfilled None ps of
        Some (t, v) \<Rightarrow> Inr v
      | None \<Rightarrow> Inl (AggregateError (rejections ps)))"

text \<open>A thrown \<^verbatim>\<open>undefined\<close> (\<^verbatim>\<open>err.errors[0]\<close> of an empty aggregate).\<close>

definition thrown_undefined :: Error where
  "thrown_undefined = Error ''undefined'' [] None []"

text \<open>
  \<^verbatim>\<open>performDial\<close>: the race over the pending dial's addresses, given what the job of
  the \<open>i\<close>-th address does, and the \<^verbatim>\<open>catch\<close> that unwraps the aggregate of a single
  address. It returns the status the pending dial is left with, too.
\<close>

definition performDial :: "PendingDial \<Rightarrow> (nat \<Rightarrow> Multiaddr \<Rightarrow> 'c DialAttempt)
    \<Rightarrow> (Error + 'c) \<times> PendingDialStatus" where
  "performDial pendingDial attempt =
     (case promise_any
             (map (\<lambda>(i, addr). (settled_at (attempt i addr), job_result (attempt i addr)))
                (zip [0 ..< length (pd_multiaddrs pendingDial)] (pd_multiaddrs pendingDial))) of
        Inr conn \<Rightarrow> (Inr conn, Succeeded)
      | Inl err \<Rightarrow>
          (if length (pd_multiaddrs pendingDial) = 1 \<and> err_name err = ''AggregateError''
             then (case err_errors err of
                     e # _ \<Rightarrow> (Inl e, Errored)
                   | [] \<Rightarrow> (Inl thrown_undefined, Errored))
           else (Inl err, Errored)))"

text \<open>
  The promise of the pending dial: \<^verbatim>\<open>performDial(...).finally(...).catch(...)\<close>. The
  \<^verbatim>\<open>catch\<close> rethrows the error, as \<^verbatim>\<open>ERR_TIMEOUT\<close> with the same message when the
  signal of the dial's timeout controller is aborted.
\<close>

definition pendingDial_promise :: "PendingDial \<Rightarrow> (nat \<Rightarrow> Multiaddr \<Rightarrow> 'c DialAttempt) \<Rightarrow> bool
    \<Rightarrow> Error + 'c" where
  "pendingDial_promise pendingDial attempt timeout_aborted =
     (case fst (performDial pendingDial attempt) of
        Inr conn \<Rightarrow> Inr conn
      | Inl err \<Rightarrow>
          (if timeout_aborted then Inl (CodeError (err_message err) ''ERR_TIMEOUT'')
           else Inl err))"

subsection \<open>Notions used to state the dial queue's properties\<close>

definition addr_str :: "Address \<Rightarrow> string" where
  "addr_str a = toString (multiaddr a)"

text \<open>A comparator \<^verbatim>\<open>Array.prototype.sort\<close> can order by: total and transitive.\<close>

definition consistent_comparator :: "('a \<Rightarrow> 'a \<Rightarrow> int) \<Rightarrow> bool" where
  "consistent_comparator cmp =
     ((\<forall>a b. cmp a b \<le> 0 \<or> cmp b a \<le> 0)
      \<and> (\<forall>a b c. cmp a b \<le> 0 \<longrightarrow> cmp b c \<le> 0 \<longrightarrow> cmp a c \<le> 0))"

text \<open>The invariant of the deduplication loop, over the addresses seen so far.\<close>

definition dedupe_inv :: "Address list \<Rightarrow> (string \<times> Address) list \<Rightarrow> bool" where
  "dedupe_inv seen m =
     (distinct (map fst m)
      \<and> (\<forall>k a. map_of m k = Some a \<longrightarrow> k = addr_str a)
      \<and> dom (map_of m) = addr_str ` set seen
      \<and> (\<forall>k a. map_of m k = Some a \<longrightarrow>
            isCertified a = (\<exists>b \<in> set seen. addr_str b = k \<and> isCertified b)))"

text \<open>No two pending dials carry the same peer id.\<close>

definition one_dial_per_peer :: "DialQueue \<Rightarrow> bool" where
  "one_dial_per_peer q = distinct (List.map_filter pd_peerId (pendingDials q))"

text \<open>The deduplication key in the specification's words: the peer id if present, else
  the exact list of multiaddrs.\<close>

definition spec_dial_matches :: "PeerId option \<Rightarrow> Address list \<Rightarrow> PendingDial \<Rightarrow> bool" where
  "spec_dial_matches peerId addrsToDial pending =
     (case peerId of
        Some p \<Rightarrow> pd_peerId pending = Some p
      | None \<Rightarrow> pd_multiaddrs pending = map multiaddr addrsToDial)"

subsection \<open>A dial queue to compute with\<close>

definition tcp_addr :: Multiaddr where
  "tcp_addr = [Component ''ip4'' (Some ''1.2.3.4''), Component ''tcp'' (Some ''4001'')]"

definition sock_addr :: Multiaddr where
  "sock_addr = [Component ''unix'' (Some ''tmp/app.sock'')]"

definition ws_addr :: Multiaddr where
  "ws_addr = [Component ''ip4'' (Some ''5.6.7.8''), Component ''tcp'' (Some ''443''),
              Component ''ws'' None]"

definition private_addr :: Multiaddr where
  "private_addr = [Component ''ip4'' (Some ''10.0.0.1''), Component ''tcp'' (Some ''4001'')]"

definition relay_addr :: Multiaddr where
  "relay_addr = [Component ''ip4'' (Some ''5.6.7.8''), Component ''tcp'' (Some ''443''),
                 Component ''p2p'' (Some ''QmRelay''), Component ''p2p-circuit'' None]"

definition demo_book :: "PeerId \<Rightarrow> Address list" where
  "demo_book p =
     (if p = ''QmP'' then [\<lparr> multiaddr = tcp_addr, isCertified = False \<rparr>,
                           \<lparr> multiaddr = encapsulate_p2p tcp_addr ''QmP'', isCertified = True \<rparr>]
      else if p = ''QmQ'' then [\<lparr> multiaddr = sock_addr, isCertified = False \<rparr>]
      else if p = ''QmS'' then [\<lparr> multiaddr = sock_addr, isCertified = False \<rparr>]
      else if p = ''QmR'' then [\<lparr> multiaddr = encapsulate_p2p tcp_addr ''QmQ'', isCertified = False \<rparr>]
      else if p = ''QmT'' then [\<lparr> multiaddr = ws_addr, isCertified = False \<rparr>,
                                \<lparr> multiaddr = tcp_addr, isCertified = False \<rparr>,
                                \<lparr> multiaddr = tcp_addr, isCertified = True \<rparr>,
                                \<lparr> multiaddr = private_addr, isCertified = False \<rparr>]
      else [])"

definition demo_components :: DialQueueComponents where
  "demo_components =
     \<lparr> self_peerId = ''QmSelf'',
       denyDialPeer = None,
       denyDialMultiaddr = None,
       addressBook_get = demo_book,
       resolveMultiaddrs = (\<lambda>m. [m]),
       transportForMultiaddr = (\<lambda>m. True),
       addressSorter = (\<lambda>a b. 0),
       maxPeerAddrsToDial = 25,
       dq_getPeerId = getPeerId_target \<rparr>"

text \<open>A sorter that puts certified addresses first, and a dial queue with a gater
  that denies the addresses of one host.\<close>

definition certified_first :: "Address \<Rightarrow> Address \<Rightarrow> int" where
  "certified_first a b =
     (if isCertified a = isCertified b then 0 else if isCertified a then - 1 else 1)"

definition deny_private :: "Multiaddr \<Rightarrow> bool" where
  "deny_private ma = (take 1 ma = [Component ''ip4'' (Some ''10.0.0.1'')])"

definition gated_components :: DialQueueComponents where
  "gated_components =
     \<lparr> self_peerId = ''QmSelf'',
       denyDialPeer = None,
       denyDialMultiaddr = Some deny_private,
       addressBook_get = demo_book,
       resolveMultiaddrs = (\<lambda>m. [m]),
       transportForMultiaddr = (\<lambda>m. True),
       addressSorter = certified_first,
       maxPeerAddrsToDial = 25,
       dq_getPeerId = getPeerId_last \<rparr>"

definition dialQ :: PendingDial where
  "dialQ = \<lparr> pd_id = ''1'', pd_status = Queued, pd_peerId = Some ''QmQ'',
             pd_multiaddrs = [sock_addr] \<rparr>"

definition refused :: Error where
  "refused = Error ''Error'' ''connection refused'' (Some ''ECONNREFUSED'') []"

definition failing_attempt :: "nat \<Rightarrow> Multiaddr \<Rightarrow> unit DialAttempt" where
  "failing_attempt i addr =
     \<lparr> aborted_in_peer_queue = False, aborted_in_dial_queue = False,
       transport_dial = Inl refused, settled_at = i \<rparr>"

section \<open>Address manager\<close>

text \<open>
  The address manager keeps strings: its announce set, and its observed map from an
  address string to the confidence in it. The library's parser \<^verbatim>\<open>multiaddr(str)\<close> and
  its \<^verbatim>\<open>getPeerId()\<close>, the transport manager's \<^verbatim>\<open>getAddrs()\<close> and the announce
  filter are parameters.
  \<open>am_updates\<close> counts the calls of the debounced \<^verbatim>\<open>_updatePeerStoreAddresses\<close>.
\<close>

record AddressManager =
  am_peerId :: PeerId
  am_parse :: "string \<Rightarrow> Multiaddr"
  am_getPeerId :: "Multiaddr \<Rightarrow> string option"
  am_listen :: "string list"
  am_announce :: "string list"
  am_observed :: "(string \<times> bool) list"
  am_ipDomainMappings :: "(string \<times> string) list"
  am_announceFilter :: "Multiaddr list \<Rightarrow> Multiaddr list"
  am_transportAddrs :: "Multiaddr list"
  am_updates :: nat

text \<open>\<^verbatim>\<open>ma.decapsulate(`/p2p/${peerId}`)\<close>: the address up to the last such tuple.\<close>

definition decapsulate_p2p :: "Multiaddr \<Rightarrow> PeerId \<Rightarrow> Multiaddr" where
  "decapsulate_p2p ma pid =
     rev (tl (dropWhile (\<lambda>c. c \<noteq> Component ''p2p'' (Some pid)) (rev ma)))"

definition stripPeerId :: "(Multiaddr \<Rightarrow> string option) \<Rightarrow> Multiaddr \<Rightarrow> PeerId \<Rightarrow> Multiaddr" where
  "stripPeerId getPeerId ma peerId =
     (case getPeerId ma of
        None \<Rightarrow> ma
      | Some observedPeerId \<Rightarrow>
          (if observedPeerId = peerId then decapsulate_p2p ma peerId else ma))"

definition addObservedAddr :: "AddressManager \<Rightarrow> Multiaddr \<Rightarrow> AddressManager" where
  "addObservedAddr am addr =
     (let addrString = toString (stripPeerId (am_getPeerId am) addr (am_peerId am)) in
      if map_of (am_observed am) addrString \<noteq> None then am
      else am\<lparr> am_observed := map_set addrString False (am_observed am) \<rparr>)"

definition confirmObservedAddr :: "AddressManager \<Rightarrow> Multiaddr \<Rightarrow> AddressManager" where
  "confirmObservedAddr am addr =
     (let addrString = toString (stripPeerId (am_getPeerId am) addr (am_peerId am));
          startingConfidence = (case map_of (am_observed am) addrString of
                                  None \<Rightarrow> False | Some confident \<Rightarrow> confident);
          am' = am\<lparr> am_observed := map_set addrString True (am_observed am) \<rparr>
      in if \<not> startingConfidence then am'\<lparr> am_updates := am_updates am + 1 \<rparr> else am')"

definition removeObservedAddr :: "AddressManager \<Rightarrow> Multiaddr \<Rightarrow> AddressManager" where
  "removeObservedAddr am addr =
     (let addrString = toString (stripPeerId (am_getPeerId am) addr (am_peerId am)) in
      am\<lparr> am_observed := filter (\<lambda>kv. fst kv \<noteq> addrString) (am_observed am) \<rparr>)"

definition getAnnounceAddrs :: "AddressManager \<Rightarrow> Multiaddr list" where
  "getAnnounceAddrs am = map (am_parse am) (am_announce am)"

text \<open>The announce addresses, or the transports' when none is configured.\<close>

definition base_addrs :: "AddressManager \<Rightarrow> Multiaddr list" where
  "base_addrs am =
     (if length (getAnnounceAddrs am) = 0 then am_transportAddrs am else getAnnounceAddrs am)"

definition confident_observed :: "AddressManager \<Rightarrow> Multiaddr list" where
  "confident_observed am =
     map (\<lambda>kv. am_parse am (fst kv)) (filter (\<lambda>kv. snd kv) (am_observed am))"

text \<open>One ip-to-domain mapping applied to one tuple, and whether it applied.\<close>

definition map_tuple :: "string \<Rightarrow> string \<Rightarrow> Component \<Rightarrow> Component \<times> bool" where
  "map_tuple ip domain c =
     (if cvalue c \<noteq> Some ip then (c, False)
      else if cname c = ''ip4'' then (Component ''dns4'' (Some domain), True)
      else if cname c = ''ip6'' then (Component ''dns6'' (Some domain), True)
      else (c, False))"

definition apply_mapping :: "string \<times> string \<Rightarrow> Component list \<times> bool \<Rightarrow> Component list \<times> bool" where
  "apply_mapping m st =
     (map (\<lambda>c. fst (map_tuple (fst m) (snd m) c)) (fst st),
      snd st \<or> list_ex (\<lambda>c. snd (map_tuple (fst m) (snd m) c)) (fst st))"

fun join_slash :: "string list \<Rightarrow> string" where
  "join_slash [] = []"
| "join_slash [x] = x"
| "join_slash (x # y # r) = x @ ''/'' @ join_slash (y # r)"

text \<open>The string a mapped address is parsed from.\<close>

definition tuples_string :: "Component list \<Rightarrow> string" where
  "tuples_string tuples =
     ''/'' @ join_slash
       (map (\<lambda>c. cname c @ ''/'' @ (case cvalue c of None \<Rightarrow> [] | Some v \<Rightarrow> v)) tuples)"

definition mapped_addr :: "AddressManager \<Rightarrow> Multiaddr \<Rightarrow> Multiaddr list" where
  "mapped_addr am ma =
     (case fold apply_mapping (am_ipDomainMappings am) (ma, False) of
        (tuples, mappedIp) \<Rightarrow>
          (if mappedIp then [am_parse am (tuples_string tuples)] else []))"

text \<open>All the addresses before the deduplication: base, confident observed, mapped.\<close>

definition candidates :: "AddressManager \<Rightarrow> Multiaddr list" where
  "candidates am =
     (let multiaddrs = base_addrs am @ confident_observed am
      in multiaddrs @ concat (map (mapped_addr am) multiaddrs))"

text \<open>The set of strings built by the deduplicating filter, in insertion order.\<close>

fun addrSet_of :: "Multiaddr list \<Rightarrow> string list \<Rightarrow> string list" where
  "addrSet_of [] addrSet = addrSet"
| "addrSet_of (ma # rest) addrSet =
     (let maStr = toString ma in
      if maStr \<in> set addrSet then addrSet_of rest addrSet
      else addrSet_of rest (addrSet @ [maStr]))"

text \<open>The advertised form of a string of the set.\<close>

definition advertised :: "AddressManager \<Rightarrow> string \<Rightarrow> Multiaddr" where
  "advertised am str =
     (let ma = am_parse am str in
      if lastProtoPath ma then ma
      else if am_getPeerId am ma = Some (am_peerId am) then ma
      else encapsulate_p2p ma (am_peerId am))"

definition getAddresses :: "AddressManager \<Rightarrow> Multiaddr list" where
  "getAddresses am =
     am_announceFilter am (map (advertised am) (addrSet_of (candidates am) []))"

subsection \<open>An address manager to compute with\<close>

definition demo_parse :: "string \<Rightarrow> Multiaddr" where
  "demo_parse s =
     (if s = ''/ip4/1.2.3.4/tcp/4001'' then tcp_addr
      else if s = ''/unix/tmp/app.sock'' then sock_addr
      else [])"

definition demo_manager :: AddressManager where
  "demo_manager =
     \<lparr> am_peerId = ''QmSelf'',
       am_parse = demo_parse,
       am_getPeerId = getPeerId_target,
       am_listen = [],
       am_announce = [],
       am_observed = [],
       am_ipDomainMappings = [],
       am_announceFilter = (\<lambda>addrs. addrs),
       am_transportAddrs = [],
       am_updates = 0 \<rparr>"

section \<open>Identify service\<close>

text \<open>
  The bytes of a signed peer record are represented by what the peer-record library
  decodes them to: the signer's peer id, whether the signature verifies for the
  peer-record domain (\<^verbatim>\<open>openAndCertify\<close> throws when it does not), and the payload.
  The bytes of \<^verbatim>\<open>observedAddr\<close> are empty, a multiaddr, or not a multiaddr; the
  \<^verbatim>\<open>listenAddrs\<close> are taken to parse.
\<close>

record PeerRecord =
  pr_peerId :: PeerId
  pr_seqNumber :: nat
  pr_multiaddrs :: "Multiaddr list"

record RecordEnvelope =
  env_peerId :: PeerId
  env_valid :: bool
  env_payload :: PeerRecord

datatype AddrBytes = EmptyBytes | ValidBytes Multiaddr | InvalidBytes

record IdentifyMessage =
  msg_protocolVersion :: "string option"
  msg_agentVersion :: "string option"
  msg_publicKey :: "string option"
  msg_listenAddrs :: "Multiaddr list"
  msg_observedAddr :: "AddrBytes option"
  msg_protocols :: "string list"
  msg_signedPeerRecord :: "RecordEnvelope option"

record StoredPeer =
  sp_addresses :: "Address list"
  sp_protocols :: "string list"
  sp_metadata :: "(string \<times> string) list"
  sp_tags :: "(string \<times> nat) list"
  sp_peerRecordEnvelope :: "RecordEnvelope option"

type_synonym PeerStore = "PeerId \<Rightarrow> StoredPeer option"

text \<open>The partial peer \<^verbatim>\<open>#consumeIdentifyMessage\<close> builds and patches the store with.\<close>

record PeerUpdate =
  pu_addresses :: "Address list"
  pu_protocols :: "string list"
  pu_metadata :: "(string \<times> string) list"
  pu_peerRecordEnvelope :: "RecordEnvelope option"

text \<open>
  Modelled from the spec: \<^verbatim>\<open>peerStore.patch\<close> of the peer-store package, which is not
  among the sources. The specification has it as the field-wise replace: each field the
  update gives replaces the stored one, and the other fields of the entry stay. The
  addresses given are normalised on the way: deduplicated by string form, each string
  keeping the strongest \<^verbatim>\<open>isCertified\<close> (the loop \<open>dedupe\<close> does just that).
\<close>

definition patch :: "PeerStore \<Rightarrow> PeerId \<Rightarrow> PeerUpdate \<Rightarrow> PeerStore" where
  "patch store peerId upd =
     store(peerId \<mapsto>
       (let old = (case store peerId of
                     None \<Rightarrow> \<lparr> sp_addresses = [], sp_protocols = [], sp_metadata = [],
                               sp_tags = [], sp_peerRecordEnvelope = None \<rparr>
                   | Some p \<Rightarrow> p)
        in old\<lparr> sp_addresses := map snd (dedupe (pu_addresses upd) []),
                sp_protocols := pu_protocols upd,
                sp_metadata := pu_metadata upd,
                sp_peerRecordEnvelope :=
                  (case pu_peerRecordEnvelope upd of
                     None \<Rightarrow> sp_peerRecordEnvelope old
                   | Some e \<Rightarrow> Some e) \<rparr>))"

record SignedPeerRecord =
  spr_seq :: nat
  spr_addresses :: "Multiaddr list"

definition plain_error :: "string \<Rightarrow> Error" where
  "plain_error message = Error ''Error'' message None []"

text \<open>The two metadata entries set before the patch.\<close>

definition with_versions :: "IdentifyMessage \<Rightarrow> PeerUpdate \<Rightarrow> PeerUpdate" where
  "with_versions message peer =
     (let m1 = (case msg_agentVersion message of
                  None \<Rightarrow> pu_metadata peer
                | Some v \<Rightarrow> map_set ''AgentVersion'' v (pu_metadata peer));
          m2 = (case msg_protocolVersion message of
                  None \<Rightarrow> m1
                | Some v \<Rightarrow> map_set ''ProtocolVersion'' v m1)
      in peer\<lparr> pu_metadata := m2 \<rparr>)"

text \<open>
  \<^verbatim>\<open>#consumeIdentifyMessage\<close> up to its last statement: what it returns and the update
  it is about to patch the store with, decided on the store as \<^verbatim>\<open>peerStore.get\<close> reads
  it. The function awaits after that read, so the store it patches can be another.
\<close>

definition consume_decide ::
    "PeerStore \<Rightarrow> PeerId \<Rightarrow> IdentifyMessage \<Rightarrow> Error + (SignedPeerRecord option \<times> PeerUpdate)" where
  "consume_decide store remotePeer message =
     (let peer = \<lparr> pu_addresses = map (\<lambda>m. \<lparr> multiaddr = m, isCertified = False \<rparr>)
                                     (msg_listenAddrs message),
                   pu_protocols = msg_protocols message,
                   pu_metadata = [],
                   pu_peerRecordEnvelope = msg_signedPeerRecord message \<rparr>
      in case msg_signedPeerRecord message of
           None \<Rightarrow> Inr (None, with_versions message peer)
         | Some envelope \<Rightarrow>
             (if \<not> env_valid envelope
                then Inl (CodeError ''envelope signature is not valid for the given domain''
                            ''ERR_SIGNATURE_NOT_VALID'')
              else if pr_peerId (env_payload envelope) \<noteq> env_peerId envelope
                then Inl (plain_error ''signing key does not match PeerId in the PeerRecord'')
              else if remotePeer \<noteq> pr_peerId (env_payload envelope)
                then Inl (plain_error ''signing key does not match remote PeerId'')
              else
                (let existingPeer = store (pr_peerId (env_payload envelope));
                     metadata = (case existingPeer of
                                   None \<Rightarrow> pu_metadata peer
                                 | Some ex \<Rightarrow> sp_metadata ex);
                     peerRecordEnvelope =
                       (case existingPeer of
                          None \<Rightarrow> envelope
                        | Some ex \<Rightarrow>
                            (case sp_peerRecordEnvelope ex of
                               None \<Rightarrow> envelope
                             | Some storedEnvelope \<Rightarrow>
                                 (if pr_seqNumber (env_payload storedEnvelope)
                                       \<ge> pr_seqNumber (env_payload envelope)
                                    then storedEnvelope else envelope)));
                     peerRecord = env_payload peerRecordEnvelope
                 in Inr (Some \<lparr> spr_seq = pr_seqNumber peerRecord,
                                 spr_addresses = pr_multiaddrs peerRecord \<rparr>,
                         with_versions message
                           \<lparr> pu_addresses = map (\<lambda>m. \<lparr> multiaddr = m, isCertified = True \<rparr>)
                                               (pr_multiaddrs peerRecord),
                             pu_protocols = pu_protocols peer,
                             pu_metadata = metadata,
                             pu_peerRecordEnvelope = Some peerRecordEnvelope \<rparr>))))"

text \<open>One run of \<^verbatim>\<open>#consumeIdentifyMessage\<close> during which no other handler patches
  the store: the patch is applied to the store that was read.\<close>

definition consumeIdentifyMessage ::
    "PeerStore \<Rightarrow> PeerId \<Rightarrow> IdentifyMessage \<Rightarrow> Error + (SignedPeerRecord option \<times> PeerStore)" where
  "consumeIdentifyMessage store remotePeer message =
     (case consume_decide store remotePeer message of
        Inl err \<Rightarrow> Inl err
      | Inr (out, peer) \<Rightarrow> Inr (out, patch store remotePeer peer))"





subsection \<open>\<^verbatim>\<open>identify\<close> on a connection\<close>

datatype ConnectionStatus = Open | Closing | Closed

record Connection =
  conn_id :: string
  remotePeer :: PeerId
  conn_status :: ConnectionStatus

record IdentifyResult =
  ir_peerId :: PeerId
  ir_protocolVersion :: "string option"
  ir_agentVersion :: "string option"
  ir_publicKey :: "string option"
  ir_listenAddrs :: "Multiaddr list"
  ir_observedAddr :: "Multiaddr option"
  ir_protocols :: "string list"
  ir_signedPeerRecord :: "SignedPeerRecord option"

record IdentifyComponents =
  id_peerId :: PeerId
  peerIdFromKeys :: "string \<Rightarrow> PeerId"
  maxObservedAddresses :: nat

text \<open>What the service acts on: the peer store, the address manager, the
  \<^verbatim>\<open>peer:identify\<close> events dispatched and the errors logged so far.\<close>

record IdentifyWorld =
  iw_peerStore :: PeerStore
  iw_addressManager :: AddressManager
  iw_events :: "IdentifyResult list"
  iw_logged :: "Error list"

definition getCleanMultiaddr :: "AddrBytes option \<Rightarrow> Multiaddr option" where
  "getCleanMultiaddr addr =
     (case addr of
        None \<Rightarrow> None
      | Some EmptyBytes \<Rightarrow> None
      | Some (ValidBytes ma) \<Rightarrow> Some ma
      | Some InvalidBytes \<Rightarrow> None)"

text \<open>\<^verbatim>\<open>message.observedAddr == null ? undefined : multiaddr(message.observedAddr)\<close>,
  where the parser throws on bytes that are no multiaddr (empty bytes are the empty
  multiaddr).\<close>

definition result_observedAddr :: "AddrBytes option \<Rightarrow> Error + Multiaddr option" where
  "result_observedAddr addr =
     (case addr of
        None \<Rightarrow> Inr None
      | Some EmptyBytes \<Rightarrow> Inr (Some [])
      | Some (ValidBytes ma) \<Rightarrow> Inr (Some ma)
      | Some InvalidBytes \<Rightarrow> Inl (plain_error ''invalid multiaddr''))"

text \<open>
  \<^verbatim>\<open>identify(connection)\<close>, from what \<^verbatim>\<open>_identify\<close> gave: the decoded message, or the
  error it threw. The connection is returned as the call leaves it. First the part
  after the checks of the public key.
\<close>

definition identify_verified :: "IdentifyComponents \<Rightarrow> IdentifyWorld \<Rightarrow> Connection
    \<Rightarrow> IdentifyMessage \<Rightarrow> PeerId \<Rightarrow> (Error + unit) \<times> IdentifyWorld \<times> Connection" where
  "identify_verified c w connection message ident =
     (let w1 = (case getCleanMultiaddr (msg_observedAddr message) of
                  None \<Rightarrow> w
                | Some cleanObservedAddr \<Rightarrow>
                    (if length (am_observed (iw_addressManager w)) < maxObservedAddresses c
                       then w\<lparr> iw_addressManager :=
                                addObservedAddr (iw_addressManager w) cleanObservedAddr \<rparr>
                     else w))
      in case consumeIdentifyMessage (iw_peerStore w1) (remotePeer connection) message of
           Inl err \<Rightarrow> (Inl err, w1, connection)
         | Inr (signedPeerRecord, store') \<Rightarrow>
             (case result_observedAddr (msg_observedAddr message) of
                Inl err \<Rightarrow> (Inl err, w1\<lparr> iw_peerStore := store' \<rparr>, connection)
              | Inr observed \<Rightarrow>
                  (Inr (),
                   w1\<lparr> iw_peerStore := store',
                       iw_events := iw_events w1 @
                         [\<lparr> ir_peerId = ident,
                            ir_protocolVersion = msg_protocolVersion message,
                            ir_agentVersion = msg_agentVersion message,
                            ir_publicKey = msg_publicKey message,
                            ir_listenAddrs = msg_listenAddrs message,
                            ir_observedAddr = observed,
                            ir_protocols = msg_protocols message,
                            ir_signedPeerRecord = signedPeerRecord \<rparr>] \<rparr>,
                   connection)))"

definition identify :: "IdentifyComponents \<Rightarrow> IdentifyWorld \<Rightarrow> Connection
    \<Rightarrow> Error + IdentifyMessage \<Rightarrow> (Error + unit) \<times> IdentifyWorld \<times> Connection" where
  "identify c w connection received =
     (case received of
        Inl err \<Rightarrow> (Inl err, w, connection)
      | Inr message \<Rightarrow>
          (case msg_publicKey message of
             None \<Rightarrow> (Inl (CodeError ''public key was missing from identify message''
                             ''ERR_MISSING_PUBLIC_KEY''), w, connection)
           | Some publicKey \<Rightarrow>
               (let ident = peerIdFromKeys c publicKey in
                if remotePeer connection \<noteq> ident
                  then (Inl (CodeError ''identified peer does not match the expected peer''
                               ''ERR_INVALID_PEER''), w, connection)
                else if id_peerId c = ident
                  then (Inl (CodeError ''identified peer is our own peer id?''
                               ''ERR_INVALID_PEER''), w, connection)
                else identify_verified c w connection message ident)))"

text \<open>The listener of \<^verbatim>\<open>connection:open\<close>: identify, and log the error if it fails.\<close>

definition on_connection_open :: "IdentifyComponents \<Rightarrow> IdentifyWorld \<Rightarrow> Connection
    \<Rightarrow> Error + IdentifyMessage \<Rightarrow> IdentifyWorld \<times> Connection" where
  "on_connection_open c w connection received =
     (case identify c w connection received of
        (Inl err, w', connection') \<Rightarrow> (w'\<lparr> iw_logged := iw_logged w' @ [err] \<rparr>, connection')
      | (Inr u, w', connection') \<Rightarrow> (w', connection'))"

subsection \<open>Notions used to state the identify properties\<close>




subsection \<open>An identify service to compute with\<close>

definition demo_envelope :: "nat \<Rightarrow> RecordEnvelope" where
  "demo_envelope s =
     \<lparr> env_peerId = ''QmP'', env_valid = True,
       env_payload = \<lparr> pr_peerId = ''QmP'', pr_seqNumber = s, pr_multiaddrs = [tcp_addr] \<rparr> \<rparr>"

definition demo_message :: "nat \<Rightarrow> IdentifyMessage" where
  "demo_message s =
     \<lparr> msg_protocolVersion = Some ''ipfs/0.1.0'',
       msg_agentVersion = Some ''js-libp2p'',
       msg_publicKey = Some ''P'',
       msg_listenAddrs = [sock_addr],
       msg_observedAddr = None,
       msg_protocols = [''/ipfs/id/1.0.0''],
       msg_signedPeerRecord = Some (demo_envelope s) \<rparr>"



definition demo_identify :: IdentifyComponents where
  "demo_identify =
     \<lparr> id_peerId = ''QmSelf'', peerIdFromKeys = (\<lambda>key. ''Qm'' @ key),
       maxObservedAddresses = 10 \<rparr>"

definition demo_world :: IdentifyWorld where
  "demo_world =
     \<lparr> iw_peerStore = (\<lambda>p. None), iw_addressManager = demo_manager,
       iw_events = [], iw_logged = [] \<rparr>"

definition demo_connection :: "PeerId \<Rightarrow> Connection" where
  "demo_connection p = \<lparr> conn_id = ''c1'', remotePeer = p, conn_status = Open \<rparr>"

section \<open>Verified properties\<close>

subsection \<open>Peer store: expired tags are not visible\<close>

lemma map_set_values: "set (map_set k v m) \<subseteq> insert (k, v) (set m)"
  by (induction m) (auto split: if_splits)

lemma live_tags_not_expired:
  "\<forall>kt \<in> set acc. \<not> tag_expired now (snd kt) \<Longrightarrow>
   \<forall>kt \<in> set (live_tags now entries acc). \<not> tag_expired now (snd kt)"
proof (induction entries arbitrary: acc)
  case Nil
  then show ?case by simp
next
  case (Cons e entries)
  obtain key tag where e: "e = (key, tag)" by (cases e)
  show ?case
  proof (cases "tag_expired now tag")
    case True
    with Cons e show ?thesis by simp
  next
    case False
    have "\<forall>kt \<in> set (map_set key tag acc). \<not> tag_expired now (snd kt)"
      using map_set_values [of key tag acc] Cons.prems False by auto
    from Cons.IH [OF this] e False show ?thesis by simp
  qed
qed

text \<open>
  Claim C9. Whatever the stored bytes decode to, no tag of the peer returned by a read
  has an expiry earlier than the time of the read.
\<close>

theorem bytesToPeer_no_expired_tag:
  "\<forall>kt \<in> set (peer_tags (bytesToPeer peerId peer now)). \<not> tag_expired now (snd kt)"
  unfolding bytesToPeer_def using live_tags_not_expired [of "[]" now "pb_tags peer"] by simp

theorem bytesToPeer_no_expired_tag_witness:
  "peer_tags (bytesToPeer ''QmA''
      \<lparr> pb_publicKey = None, pb_addresses = [], pb_protocols = [], pb_metadata = [],
        pb_tags = [(''old'', \<lparr> tag_value = 5, expiry = Some 90 \<rparr>),
                   (''live'', \<lparr> tag_value = 7, expiry = Some 200 \<rparr>),
                   (''forever'', \<lparr> tag_value = 1, expiry = None \<rparr>)],
        pb_peerRecordEnvelope = None \<rparr> 100)
     = [(''live'', \<lparr> tag_value = 7, expiry = Some 200 \<rparr>),
        (''forever'', \<lparr> tag_value = 1, expiry = None \<rparr>)]
   \<and> \<not> tag_expired 100 \<lparr> tag_value = 7, expiry = Some 200 \<rparr>
   \<and> \<not> tag_expired 100 \<lparr> tag_value = 1, expiry = None \<rparr>
   \<and> tag_expired 100 \<lparr> tag_value = 5, expiry = Some 90 \<rparr>"
  using bytesToPeer_no_expired_tag [of "''QmA''"
      "\<lparr> pb_publicKey = None, pb_addresses = [], pb_protocols = [], pb_metadata = [],
        pb_tags = [(''old'', \<lparr> tag_value = 5, expiry = Some 90 \<rparr>),
                   (''live'', \<lparr> tag_value = 7, expiry = Some 200 \<rparr>),
                   (''forever'', \<lparr> tag_value = 1, expiry = None \<rparr>)],
        pb_peerRecordEnvelope = None \<rparr>" 100]
  by (simp add: bytesToPeer_def tag_expired_def)

subsection \<open>Node facade: start and stop are idempotent\<close>

lemma run_phase_started: "run_phase ph sel ss n = (e, n') \<Longrightarrow> started n' = started n"
proof (induction ss arbitrary: n e n')
  case Nil
  then show ?case by simp
next
  case (Cons s ss)
  show ?case
  proof (cases "sel s")
    case None
    with Cons show ?thesis by simp
  next
    case (Some h)
    obtain e1 w1 where h: "h (world n) = (e1, w1)" by (cases "h (world n)")
    let ?n1 = "n\<lparr> world := w1, invoked := invoked n @ [(service_name s, ph)] \<rparr>"
    obtain e2 n2 where r: "run_phase ph sel ss ?n1 = (e2, n2)"
      by (cases "run_phase ph sel ss ?n1")
    from Cons.IH [OF r] have "started n2 = started n" by simp
    moreover from Cons.prems Some h r have "n' = n2" by simp
    ultimately show ?thesis by simp
  qed
qed

lemma stop_not_started: "stop init n = (e, n') \<Longrightarrow> \<not> started n'"
proof (cases "started n")
  case False
  assume "stop init n = (e, n')"
  with False show ?thesis by (simp add: stop_def)
next
  case True
  assume st: "stop init n = (e, n')"
  obtain e1 n1 where p1: "run_phase BeforeStop beforeStop (services init) (n\<lparr> started := False \<rparr>) = (e1, n1)"
    by (cases "run_phase BeforeStop beforeStop (services init) (n\<lparr> started := False \<rparr>)")
  obtain e2 n2 where p2: "run_phase Stop (\<lambda>s. Some (stop_hook s)) (services init) n1 = (e2, n2)"
    by (cases "run_phase Stop (\<lambda>s. Some (stop_hook s)) (services init) n1")
  obtain e3 n3 where p3: "run_phase AfterStop afterStop (services init) n2 = (e3, n3)"
    by (cases "run_phase AfterStop afterStop (services init) n2")
  have s1: "\<not> started n1" using run_phase_started [OF p1] by simp
  have s2: "\<not> started n2" using run_phase_started [OF p2] s1 by simp
  have s3: "\<not> started n3" using run_phase_started [OF p3] s2 by simp
  from st True p1 p2 p3 have "n' = n1 \<or> n' = n2 \<or> n' = n3"
    by (auto simp: stop_def split: option.splits)
  with s1 s2 s3 show ?thesis by auto
qed

lemma start_phases_started: "start_phases init n = (e, n') \<Longrightarrow> started n' = started n"
proof -
  assume sp: "start_phases init n = (e, n')"
  obtain e1 n1 where p1: "run_phase BeforeStart beforeStart (services init) n = (e1, n1)"
    by (cases "run_phase BeforeStart beforeStart (services init) n")
  obtain e2 n2 where p2: "run_phase Start (\<lambda>s. Some (start_hook s)) (services init) n1 = (e2, n2)"
    by (cases "run_phase Start (\<lambda>s. Some (start_hook s)) (services init) n1")
  obtain e3 n3 where p3: "run_phase AfterStart afterStart (services init) n2 = (e3, n3)"
    by (cases "run_phase AfterStart afterStart (services init) n2")
  have s1: "started n1 = started n" using run_phase_started [OF p1] .
  have s2: "started n2 = started n" using run_phase_started [OF p2] s1 by simp
  have s3: "started n3 = started n" using run_phase_started [OF p3] s2 by simp
  from sp p1 p2 p3 have "n' = n1 \<or> n' = n2 \<or> n' = n3"
    by (auto simp: start_phases_def split: option.splits)
  with s1 s2 s3 show ?thesis by auto
qed

lemma start_ok_started: "start init n = (None, n') \<Longrightarrow> started n'"
proof (cases "started n")
  case True
  assume "start init n = (None, n')"
  with True show ?thesis by (simp add: start_def)
next
  case False
  assume st: "start init n = (None, n')"
  obtain ek w where k: "keychain_self init (world n) = (ek, w)"
    by (cases "keychain_self init (world n)")
  let ?n0 = "n\<lparr> started := True, world := w \<rparr>"
  obtain e1 n1 where p: "start_phases init ?n0 = (e1, n1)"
    by (cases "start_phases init ?n0")
  obtain e2 n2 where q: "stop init n1 = (e2, n2)" by (cases "stop init n1")
  from st False k p q have "e1 = None \<and> n' = n1"
    by (auto simp: start_def split: option.splits)
  with start_phases_started [OF p] show ?thesis by simp
qed

text \<open>
  Claim C10. \<^verbatim>\<open>start\<close> on a started node and \<^verbatim>\<open>stop\<close> on a node that is not started
  return at once, calling no hook and changing nothing; so \<^verbatim>\<open>start\<close> twice in sequence
  is \<^verbatim>\<open>start\<close> once, and \<^verbatim>\<open>stop\<close> twice is \<^verbatim>\<open>stop\<close> once.
\<close>

theorem start_stop_idempotent:
  "(started n \<longrightarrow> start init n = (None, n))
   \<and> (\<not> started n \<longrightarrow> stop init n = (None, n))
   \<and> and_then (start init) (start init) n = start init n
   \<and> and_then (stop init) (stop init) n = stop init n
   \<and> snd (stop init (snd (stop init n))) = snd (stop init n)"
proof (intro conjI)
  show "started n \<longrightarrow> start init n = (None, n)" by (simp add: start_def)
  show "\<not> started n \<longrightarrow> stop init n = (None, n)" by (simp add: stop_def)
  show "and_then (start init) (start init) n = start init n"
  proof (cases "start init n")
    case (Pair e n')
    show ?thesis
    proof (cases e)
      case None
      with Pair start_ok_started [of init n n'] have "started n'" by simp
      then have "start init n' = (None, n')" by (simp add: start_def)
      with Pair None show ?thesis by (simp add: and_then_def)
    next
      case (Some x)
      with Pair show ?thesis by (simp add: and_then_def)
    qed
  qed
  have again: "stop init n' = (None, n')" if "stop init n = (e, n')" for e n'
    using stop_not_started [OF that] by (simp add: stop_def)
  show "and_then (stop init) (stop init) n = stop init n"
  proof (cases "stop init n")
    case (Pair e n')
    with again [OF Pair] show ?thesis by (cases e) (simp_all add: and_then_def)
  qed
  show "snd (stop init (snd (stop init n))) = snd (stop init n)"
  proof (cases "stop init n")
    case (Pair e n')
    with again [OF Pair] show ?thesis by simp
  qed
qed

theorem start_stop_idempotent_witness:
  "start demo_init \<lparr> started = False, world = 0, invoked = [] \<rparr>
     = (None, \<lparr> started = True, world = 11,
                invoked = [(''svc'', BeforeStart), (''svc'', Start)] \<rparr>)
   \<and> started \<lparr> started = True, world = (11::nat),
                invoked = [(''svc'', BeforeStart), (''svc'', Start)] \<rparr>
   \<and> start demo_init \<lparr> started = True, world = 11,
                invoked = [(''svc'', BeforeStart), (''svc'', Start)] \<rparr>
     = (None, \<lparr> started = True, world = 11,
                invoked = [(''svc'', BeforeStart), (''svc'', Start)] \<rparr>)
   \<and> \<not> started \<lparr> started = False, world = (0::nat), invoked = [] \<rparr>
   \<and> stop demo_init \<lparr> started = False, world = 0, invoked = [] \<rparr>
     = (None, \<lparr> started = False, world = 0, invoked = [] \<rparr>)
   \<and> and_then (start demo_init) (start demo_init)
        \<lparr> started = False, world = 0, invoked = [] \<rparr>
     = (None, \<lparr> started = True, world = 11,
                invoked = [(''svc'', BeforeStart), (''svc'', Start)] \<rparr>)
   \<and> and_then (stop demo_init) (stop demo_init)
        \<lparr> started = True, world = 11, invoked = [] \<rparr>
     = (None, \<lparr> started = False, world = 111, invoked = [(''svc'', Stop)] \<rparr>)"
proof -
  let ?n0 = "\<lparr> started = False, world = (0::nat), invoked = [] \<rparr>"
  let ?n1 = "\<lparr> started = True, world = (11::nat),
               invoked = [(''svc'', BeforeStart), (''svc'', Start)] \<rparr>"
  let ?n2 = "\<lparr> started = True, world = (11::nat), invoked = [] \<rparr>"
  have s0: "start demo_init ?n0 = (None, ?n1)"
    by (simp add: start_def start_phases_def demo_init_def demo_service_def)
  have s2: "stop demo_init ?n2
      = (None, \<lparr> started = False, world = 111, invoked = [(''svc'', Stop)] \<rparr>)"
    by (simp add: stop_def demo_init_def demo_service_def)
  show ?thesis
    using start_stop_idempotent [of ?n1 demo_init] start_stop_idempotent [of ?n0 demo_init]
      start_stop_idempotent [of ?n2 demo_init] s0 s2
    by simp
qed

subsection \<open>Dial queue: helper lemmas\<close>

lemma map_of_map_set: "map_of (map_set k v m) = (map_of m)(k \<mapsto> v)"
  by (induction m) auto

lemma keys_map_set:
  "map fst (map_set k v m) = (if k \<in> set (map fst m) then map fst m else map fst m @ [k])"
  by (induction m) force+

lemma distinct_map_set: "distinct (map fst m) \<Longrightarrow> distinct (map fst (map_set k v m))"
  by (simp add: keys_map_set)

lemma dedupe_inv_step:
  assumes inv: "dedupe_inv seen m"
  shows "dedupe_inv (seen @ [addr])
           (case map_of m (addr_str addr) of
              Some existing \<Rightarrow> map_set (addr_str addr)
                 (existing\<lparr> isCertified := isCertified existing \<or> isCertified addr \<or> False \<rparr>) m
            | None \<Rightarrow> map_set (addr_str addr) addr m)"
proof -
  from inv have dist: "distinct (map fst m)"
    and key: "\<And>k a. map_of m k = Some a \<Longrightarrow> k = addr_str a"
    and dom: "dom (map_of m) = addr_str ` set seen"
    and cert: "\<And>k a. map_of m k = Some a \<Longrightarrow>
                 isCertified a = (\<exists>b \<in> set seen. addr_str b = k \<and> isCertified b)"
    unfolding dedupe_inv_def by blast+
  have step: "dedupe_inv (seen @ [addr]) (map_set (addr_str addr) v m)"
    if v_str: "addr_str v = addr_str addr"
      and v_cert: "isCertified v
                     = (\<exists>b \<in> set (seen @ [addr]). addr_str b = addr_str addr \<and> isCertified b)"
    for v
    unfolding dedupe_inv_def map_of_map_set
  proof (intro conjI allI impI)
    show "distinct (map fst (map_set (addr_str addr) v m))"
      using dist by (rule distinct_map_set)
  next
    fix k a assume h: "((map_of m)(addr_str addr \<mapsto> v)) k = Some a"
    show "k = addr_str a"
    proof (cases "k = addr_str addr")
      case True
      with h v_str show ?thesis by simp
    next
      case False
      with h key show ?thesis by simp
    qed
  next
    show "dom ((map_of m)(addr_str addr \<mapsto> v)) = addr_str ` set (seen @ [addr])"
      using dom by simp
  next
    fix k a assume h: "((map_of m)(addr_str addr \<mapsto> v)) k = Some a"
    show "isCertified a = (\<exists>b \<in> set (seen @ [addr]). addr_str b = k \<and> isCertified b)"
    proof (cases "k = addr_str addr")
      case True
      with h have "a = v" by simp
      with True v_cert show ?thesis by simp
    next
      case False
      with h have "map_of m k = Some a" by simp
      from cert [OF this] False show ?thesis by auto
    qed
  qed
  show ?thesis
  proof (cases "map_of m (addr_str addr)")
    case None
    then have "addr_str addr \<notin> dom (map_of m)" by (simp add: domIff)
    with dom have notin: "addr_str addr \<notin> addr_str ` set seen" by simp
    from notin have "\<forall>b \<in> set seen. addr_str b \<noteq> addr_str addr"
      by (metis image_eqI)
    then have "isCertified addr
            = (\<exists>b \<in> set (seen @ [addr]). addr_str b = addr_str addr \<and> isCertified b)"
      by auto
    from step [OF refl this] None show ?thesis by simp
  next
    case (Some existing)
    let ?e = "existing\<lparr> isCertified := isCertified existing \<or> isCertified addr \<or> False \<rparr>"
    from key [OF Some] have e_str: "addr_str ?e = addr_str addr" by (simp add: addr_str_def)
    from cert [OF Some] have "isCertified ?e
            = (\<exists>b \<in> set (seen @ [addr]). addr_str b = addr_str addr \<and> isCertified b)"
      by auto
    from step [OF e_str this] Some show ?thesis by simp
  qed
qed



lemma dedupe_Cons:
  "dedupe (addr # rest) m =
     dedupe rest (case map_of m (addr_str addr) of
              Some existing \<Rightarrow> map_set (addr_str addr)
                 (existing\<lparr> isCertified := isCertified existing \<or> isCertified addr \<or> False \<rparr>) m
            | None \<Rightarrow> map_set (addr_str addr) addr m)"
  by (cases "map_of m (toString (multiaddr addr))") (simp_all add: addr_str_def)

lemma dedupe_inv_loop:
  "dedupe_inv seen m \<Longrightarrow> dedupe_inv (seen @ rest) (dedupe rest m)"
proof (induction rest arbitrary: seen m)
  case Nil
  then show ?case by simp
next
  case (Cons addr rest)
  from dedupe_inv_step [OF Cons.prems, of addr]
  have "dedupe_inv ((seen @ [addr]) @ rest)
          (dedupe rest (case map_of m (addr_str addr) of
              Some existing \<Rightarrow> map_set (addr_str addr)
                 (existing\<lparr> isCertified := isCertified existing \<or> isCertified addr \<or> False \<rparr>) m
            | None \<Rightarrow> map_set (addr_str addr) addr m))"
    by (rule Cons.IH)
  then show ?case
    unfolding dedupe_Cons by simp
qed

lemma dedupe_inv_all: "dedupe_inv addrs (dedupe addrs [])"
proof -
  have "dedupe_inv [] []" by (simp add: dedupe_inv_def)
  from dedupe_inv_loop [OF this, of addrs] show ?thesis by simp
qed


lemma deduped_distinct: "distinct (map addr_str (map snd (dedupe addrs [])))"
proof -
  let ?m = "dedupe addrs []"
  have inv: "dedupe_inv addrs ?m" by (rule dedupe_inv_all)
  then have d: "distinct (map fst ?m)"
    and key: "\<And>k a. map_of ?m k = Some a \<Longrightarrow> k = addr_str a"
    unfolding dedupe_inv_def by blast+
  have "fst ka = addr_str (snd ka)" if "ka \<in> set ?m" for ka
  proof -
    from that have "(fst ka, snd ka) \<in> set ?m" by simp
    with d have "map_of ?m (fst ka) = Some (snd ka)" by (rule map_of_is_SomeI)
    then show ?thesis by (rule key)
  qed
  then have "map fst ?m = map (\<lambda>ka. addr_str (snd ka)) ?m" by simp
  then have "map fst ?m = map addr_str (map snd ?m)" by (simp add: comp_def)
  with d show ?thesis by simp
qed

lemma deduped_certified:
  assumes "d \<in> set (map snd (dedupe addrs []))"
  shows "isCertified d = (\<exists>b \<in> set addrs. addr_str b = addr_str d \<and> isCertified b)"
proof -
  let ?m = "dedupe addrs []"
  have inv: "dedupe_inv addrs ?m" by (rule dedupe_inv_all)
  then have dist: "distinct (map fst ?m)"
    and key: "\<And>k a. map_of ?m k = Some a \<Longrightarrow> k = addr_str a"
    and cert: "\<And>k a. map_of ?m k = Some a \<Longrightarrow>
                 isCertified a = (\<exists>b \<in> set addrs. addr_str b = k \<and> isCertified b)"
    unfolding dedupe_inv_def by blast+
  from assms obtain k where "(k, d) \<in> set ?m" by auto
  with dist have m: "map_of ?m k = Some d" by (rule map_of_is_SomeI)
  from key [OF m] cert [OF m] show ?thesis by simp
qed


lemma set_sort_insert: "set (sort_insert cmp x ys) = insert x (set ys)"
  by (induction ys) auto

lemma set_js_sort: "set (js_sort cmp xs) = set xs"
  by (induction xs) (simp_all add: js_sort_def set_sort_insert)

lemma sorted_sort_insert:
  assumes cons: "consistent_comparator cmp"
  shows "sorted_wrt (\<lambda>a b. cmp a b \<le> 0) ys
         \<Longrightarrow> sorted_wrt (\<lambda>a b. cmp a b \<le> 0) (sort_insert cmp x ys)"
proof (induction ys)
  case Nil
  then show ?case by simp
next
  case (Cons y ys)
  from cons have total: "cmp x y \<le> 0 \<or> cmp y x \<le> 0"
    unfolding consistent_comparator_def by blast
  from cons have trans: "cmp a b \<le> 0 \<Longrightarrow> cmp b c \<le> 0 \<Longrightarrow> cmp a c \<le> 0" for a b c
    unfolding consistent_comparator_def by blast
  from Cons.prems have y_le: "\<forall>z \<in> set ys. cmp y z \<le> 0"
    and sorted_ys: "sorted_wrt (\<lambda>a b. cmp a b \<le> 0) ys" by simp_all
  show ?case
  proof (cases "cmp x y \<le> 0")
    case True
    have "\<forall>z \<in> set ys. cmp x z \<le> 0"
    proof
      fix z assume "z \<in> set ys"
      with y_le have "cmp y z \<le> 0" by simp
      with True show "cmp x z \<le> 0" by (rule trans)
    qed
    with True Cons.prems show ?thesis by simp
  next
    case False
    with total have yx: "cmp y x \<le> 0" by simp
    have "sorted_wrt (\<lambda>a b. cmp a b \<le> 0) (sort_insert cmp x ys)"
      using sorted_ys by (rule Cons.IH)
    with False yx y_le show ?thesis by (simp add: set_sort_insert)
  qed
qed

lemma sorted_js_sort:
  "consistent_comparator cmp \<Longrightarrow> sorted_wrt (\<lambda>a b. cmp a b \<le> 0) (js_sort cmp xs)"
  by (induction xs) (simp_all add: js_sort_def sorted_sort_insert)


lemma appendPeerId_shape:
  "isCertified (appendPeerId c p d) = isCertified d
   \<and> multiaddr (appendPeerId c p d)
       = (if lastProtoPath (multiaddr d) \<or> dq_getPeerId c (multiaddr d) \<noteq> None then multiaddr d
          else multiaddr d @ [Component ''p2p'' (Some p)])"
  by (simp add: appendPeerId_def encapsulate_p2p_def)

lemma set_map_filter: "set (List.map_filter f xs) = {y. \<exists>x \<in> set xs. f x = Some y}"
  by (induction xs) (auto split: option.splits)

lemma distinct_map_filter_filter:
  "distinct (List.map_filter f xs) \<Longrightarrow> distinct (List.map_filter f (filter P xs))"
  by (induction xs) (auto simp: set_map_filter split: option.splits)

lemma map_filter_snoc:
  "List.map_filter f (xs @ [x]) = List.map_filter f xs @ (case f x of None \<Rightarrow> [] | Some y \<Rightarrow> [y])"
  by (induction xs) (auto split: option.splits)

lemma dial_settled_one_per_peer:
  "one_dial_per_peer q \<Longrightarrow> one_dial_per_peer (dial_settled q ident)"
  by (simp add: one_dial_per_peer_def dial_settled_def distinct_map_filter_filter)

lemma dial_one_per_peer:
  assumes "one_dial_per_peer q"
  shows "one_dial_per_peer (snd (dial c q peerId multiaddrs newId))"
proof (cases "calculateMultiaddrs c peerId (map (\<lambda>m. \<lparr> multiaddr = m, isCertified = False \<rparr>) multiaddrs)")
  case (Inl err)
  with assms show ?thesis by (simp add: dial_def)
next
  case (Inr addrsToDial)
  show ?thesis
  proof (cases "find (dial_matches peerId addrsToDial) (pendingDials q)")
    case (Some d)
    with Inr assms show ?thesis by (simp add: dial_def)
  next
    case None
    then have nomatch: "\<forall>d \<in> set (pendingDials q). \<not> dial_matches peerId addrsToDial d"
      by (simp add: find_None_iff)
    have fresh: "p \<notin> set (List.map_filter pd_peerId (pendingDials q))" if "peerId = Some p" for p
    proof
      assume "p \<in> set (List.map_filter pd_peerId (pendingDials q))"
      then obtain d where d: "d \<in> set (pendingDials q)" "pd_peerId d = Some p"
        by (auto simp: set_map_filter)
      with that have "dial_matches peerId addrsToDial d" by (simp add: dial_matches_def)
      with nomatch d show False by blast
    qed
    from Inr None assms fresh show ?thesis
      by (cases peerId) (simp_all add: dial_def one_dial_per_peer_def map_filter_snoc)
  qed
qed

lemma dial_joins_existing:
  assumes calc: "calculateMultiaddrs c peerId
                   (map (\<lambda>m. \<lparr> multiaddr = m, isCertified = False \<rparr>) multiaddrs) = Inr addrsToDial"
    and ex: "d0 \<in> set (pendingDials q)" "dial_matches peerId addrsToDial d0"
  shows "\<exists>d. find (dial_matches peerId addrsToDial) (pendingDials q) = Some d
             \<and> d \<in> set (pendingDials q) \<and> dial_matches peerId addrsToDial d
             \<and> dial c q peerId multiaddrs newId = (Inr (pd_id d), q)"
proof -
  from ex have "find (dial_matches peerId addrsToDial) (pendingDials q) \<noteq> None"
    by (auto simp: find_None_iff)
  then obtain d where f: "find (dial_matches peerId addrsToDial) (pendingDials q) = Some d"
    by auto
  then have "d \<in> set (pendingDials q)" "dial_matches peerId addrsToDial d"
    by (auto simp: find_Some_iff)
  with f calc show ?thesis by (simp add: dial_def)
qed

subsection \<open>Dial queue: dialling self, and the error of a failed dial\<close>

text \<open>
  Claim C5. A dial whose target peer id is the node's own rejects with
  \<^verbatim>\<open>ERR_DIALED_SELF\<close>, and the list of pending dials is what it was: no entry is added.
\<close>

theorem dial_self_rejected:
  "dial c q (Some (self_peerId c)) multiaddrs newId
     = (Inl (CodeError ''Tried to dial self'' ''ERR_DIALED_SELF''), q)"
  by (simp add: dial_def calculateMultiaddrs_def)

lemma all_rejected:
  "map snd ps = map Inl errs \<Longrightarrow> first_fulfilled None ps = None \<and> rejections ps = errs"
proof (induction ps arbitrary: errs)
  case Nil
  then show ?case by simp
next
  case (Cons p ps)
  then obtain e es where errs: "errs = e # es" by (cases errs) auto
  obtain t r where p: "p = (t, r)" by (cases p)
  from Cons.prems errs p have r: "r = Inl e" and rest: "map snd ps = map Inl es" by auto
  from Cons.IH [OF rest] p r errs show ?case by simp
qed

lemma promise_any_all_rejected:
  "map snd ps = map Inl errs \<Longrightarrow> promise_any ps = Inl (AggregateError errs)"
  using all_rejected [of ps errs] by (simp add: promise_any_def)

text \<open>
  Claim C6. When the jobs of all the addresses of a pending dial reject, the dial rejects
  with the one error itself when one address was tried and with the
  \<^verbatim>\<open>AggregateError\<close> of the errors otherwise; when the dial's timeout has fired, with
  an \<^verbatim>\<open>ERR_TIMEOUT\<close> error carrying that error's message.
\<close>

theorem dial_rejection:
  assumes "map (\<lambda>(i, addr). job_result (attempt i addr))
             (zip [0 ..< length (pd_multiaddrs pendingDial)] (pd_multiaddrs pendingDial))
           = map Inl errs"
  shows "pendingDial_promise pendingDial attempt timeout_aborted =
           Inl (let err = (case errs of [e] \<Rightarrow> e | _ \<Rightarrow> AggregateError errs)
                in if timeout_aborted then CodeError (err_message err) ''ERR_TIMEOUT'' else err)"
proof -
  let ?ps = "map (\<lambda>(i, addr). (settled_at (attempt i addr), job_result (attempt i addr)))
                (zip [0 ..< length (pd_multiaddrs pendingDial)] (pd_multiaddrs pendingDial))"
  have "map snd ?ps = map (\<lambda>(i, addr). job_result (attempt i addr))
             (zip [0 ..< length (pd_multiaddrs pendingDial)] (pd_multiaddrs pendingDial))"
    by (simp add: case_prod_beta comp_def)
  with assms have sn: "map snd ?ps = map Inl errs" by simp
  have any: "promise_any ?ps = Inl (AggregateError errs)"
    using promise_any_all_rejected [OF sn] .
  have len: "length errs = length (pd_multiaddrs pendingDial)"
    using arg_cong [OF assms, of length] by simp
  show ?thesis
  proof (cases "length (pd_multiaddrs pendingDial) = 1")
    case True
    with len obtain e where e: "errs = [e]" by (cases errs) auto
    with any True show ?thesis
      by (simp add: pendingDial_promise_def performDial_def AggregateError_def)
  next
    case False
    with len have "\<not> (\<exists>e. errs = [e])" by auto
    then have c: "(case errs of [e] \<Rightarrow> e | _ \<Rightarrow> AggregateError errs) = AggregateError errs"
      by (auto split: list.splits)
    from any False show ?thesis
      by (simp add: pendingDial_promise_def performDial_def c)
  qed
qed

theorem dial_rejection_witness:
  "pendingDial_promise dialQ failing_attempt False = Inl refused
   \<and> pendingDial_promise dialQ failing_attempt True
       = Inl (CodeError ''connection refused'' ''ERR_TIMEOUT'')
   \<and> pendingDial_promise (dialQ\<lparr> pd_multiaddrs := [sock_addr, tcp_addr] \<rparr>) failing_attempt False
       = Inl (AggregateError [refused, refused])
   \<and> pendingDial_promise (dialQ\<lparr> pd_multiaddrs := [sock_addr, tcp_addr] \<rparr>) failing_attempt True
       = Inl (CodeError ''All promises were rejected'' ''ERR_TIMEOUT'')"
proof -
  have one: "map (\<lambda>(i, addr). job_result (failing_attempt i addr))
               (zip [0 ..< length (pd_multiaddrs dialQ)] (pd_multiaddrs dialQ))
             = map Inl [refused]"
    by (simp add: dialQ_def job_result_def failing_attempt_def)
  have two: "map (\<lambda>(i, addr). job_result (failing_attempt i addr))
               (zip [0 ..< length (pd_multiaddrs (dialQ\<lparr> pd_multiaddrs := [sock_addr, tcp_addr] \<rparr>))]
                  (pd_multiaddrs (dialQ\<lparr> pd_multiaddrs := [sock_addr, tcp_addr] \<rparr>)))
             = map Inl [refused, refused]"
    by (simp add: job_result_def failing_attempt_def upt_rec)
  show ?thesis
    using dial_rejection [OF one, of False] dial_rejection [OF one, of True]
      dial_rejection [OF two, of False] dial_rejection [OF two, of True]
    by (simp add: refused_def AggregateError_def)
qed

subsection \<open>Dial queue: joining pending dials\<close>

lemma peer_match: "peerId \<noteq> None \<Longrightarrow> pd_peerId d = peerId \<Longrightarrow> dial_matches peerId addrsToDial d"
  by (simp add: dial_matches_def)

lemma addr_str_fun: "addr_str = (\<lambda>a. toString (multiaddr a))"
  by (rule ext) (simp add: addr_str_def)

lemma join_match:
  "js_join (map addr_str addrsToDial) = js_join (map toString (pd_multiaddrs d))
   \<Longrightarrow> dial_matches peerId addrsToDial d"
  by (simp add: dial_matches_def addr_str_fun)

text \<open>
  Claim C1, as the code has it. Once \<^verbatim>\<open>calculateMultiaddrs\<close> has given the addresses
  to dial: if a pending dial has the same peer id (both present), or the same
  comma-joined string forms of its addresses, no pending dial is created and the
  invocation awaits the promise of the first such dial of the list (which the address
  match can make a dial for another peer); if none matches, exactly one pending dial is
  appended and awaited. So no two pending dials ever carry the same peer id, and the
  invocations that join a dial settle with its one promise.
\<close>

theorem dial_dedup:
  assumes calc: "calculateMultiaddrs c peerId
                   (map (\<lambda>m. \<lparr> multiaddr = m, isCertified = False \<rparr>) multiaddrs) = Inr addrsToDial"
  shows "(d0 \<in> set (pendingDials q)
          \<and> ((peerId \<noteq> None \<and> pd_peerId d0 = peerId)
              \<or> js_join (map addr_str addrsToDial) = js_join (map toString (pd_multiaddrs d0)))
          \<longrightarrow> (\<exists>d. find (dial_matches peerId addrsToDial) (pendingDials q) = Some d
                   \<and> dial c q peerId multiaddrs newId = (Inr (pd_id d), q)))
     \<and> (find (dial_matches peerId addrsToDial) (pendingDials q) = None
          \<longrightarrow> dial c q peerId multiaddrs newId =
                (Inr newId,
                 q\<lparr> pendingDials := pendingDials q @
                      [\<lparr> pd_id = newId, pd_status = Queued, pd_peerId = peerId,
                         pd_multiaddrs = map multiaddr addrsToDial \<rparr>] \<rparr>))
     \<and> (one_dial_per_peer q
          \<longrightarrow> one_dial_per_peer (snd (dial c q peerId multiaddrs newId))
              \<and> one_dial_per_peer (dial_settled q ident))"
proof (intro conjI impI)
  assume h: "d0 \<in> set (pendingDials q)
          \<and> ((peerId \<noteq> None \<and> pd_peerId d0 = peerId)
              \<or> js_join (map addr_str addrsToDial) = js_join (map toString (pd_multiaddrs d0)))"
  then have "dial_matches peerId addrsToDial d0"
    using peer_match join_match by blast
  with h dial_joins_existing [OF calc, of d0 q newId]
  show "\<exists>d. find (dial_matches peerId addrsToDial) (pendingDials q) = Some d
                   \<and> dial c q peerId multiaddrs newId = (Inr (pd_id d), q)"
    by blast
next
  assume "find (dial_matches peerId addrsToDial) (pendingDials q) = None"
  with calc show "dial c q peerId multiaddrs newId =
                (Inr newId,
                 q\<lparr> pendingDials := pendingDials q @
                      [\<lparr> pd_id = newId, pd_status = Queued, pd_peerId = peerId,
                         pd_multiaddrs = map multiaddr addrsToDial \<rparr>] \<rparr>)"
    by (simp add: dial_def)
next
  assume "one_dial_per_peer q"
  then show "one_dial_per_peer (snd (dial c q peerId multiaddrs newId))"
    by (rule dial_one_per_peer)
next
  assume "one_dial_per_peer q"
  then show "one_dial_per_peer (dial_settled q ident)"
    by (rule dial_settled_one_per_peer)
qed

lemma demo_Q:
  "calculateMultiaddrs demo_components (Some ''QmQ'')
     (map (\<lambda>m. \<lparr> multiaddr = m, isCertified = False \<rparr>) [])
     = Inr [\<lparr> multiaddr = sock_addr, isCertified = False \<rparr>]"
  by (simp add: calculateMultiaddrs_def addrsToDial_of_def dedupedMultiaddrs_def
      filteredAddrs_def resolvedAddresses_def resolve_address_def demo_components_def
      demo_book_def toString_def sock_addr_def component_str_def
      appendPeerId_def lastProtoPath_def gated_def js_sort_def Let_def)

lemma demo_S:
  "calculateMultiaddrs demo_components (Some ''QmS'')
     (map (\<lambda>m. \<lparr> multiaddr = m, isCertified = False \<rparr>) [])
     = Inr [\<lparr> multiaddr = sock_addr, isCertified = False \<rparr>]"
  by (simp add: calculateMultiaddrs_def addrsToDial_of_def dedupedMultiaddrs_def
      filteredAddrs_def resolvedAddresses_def resolve_address_def demo_components_def
      demo_book_def toString_def sock_addr_def component_str_def
      appendPeerId_def lastProtoPath_def gated_def js_sort_def Let_def)

theorem dial_dedup_witness:
  "dial demo_components \<lparr> pendingDials = [] \<rparr> (Some ''QmQ'') [] ''1''
     = (Inr ''1'', \<lparr> pendingDials = [dialQ] \<rparr>)
   \<and> dial demo_components \<lparr> pendingDials = [dialQ] \<rparr> (Some ''QmQ'') [] ''2''
     = (Inr ''1'', \<lparr> pendingDials = [dialQ] \<rparr>)
   \<and> one_dial_per_peer \<lparr> pendingDials = [dialQ] \<rparr>
   \<and> one_dial_per_peer (dial_settled \<lparr> pendingDials = [dialQ] \<rparr> ''1'')"
proof -
  have none: "find (dial_matches (Some ''QmQ'') [\<lparr> multiaddr = sock_addr, isCertified = False \<rparr>])
                (pendingDials \<lparr> pendingDials = [] \<rparr>) = None" by simp
  have inq: "dialQ \<in> set (pendingDials \<lparr> pendingDials = [dialQ] \<rparr>)
      \<and> ((Some ''QmQ'' \<noteq> None \<and> pd_peerId dialQ = Some ''QmQ'')
          \<or> js_join (map addr_str [\<lparr> multiaddr = sock_addr, isCertified = False \<rparr>])
             = js_join (map toString (pd_multiaddrs dialQ)))"
    by (simp add: dialQ_def)
  have f: "find (dial_matches (Some ''QmQ'') [\<lparr> multiaddr = sock_addr, isCertified = False \<rparr>])
             (pendingDials \<lparr> pendingDials = [dialQ] \<rparr>) = Some dialQ"
    by (simp add: dial_matches_def dialQ_def)
  have o0: "one_dial_per_peer \<lparr> pendingDials = [] \<rparr>"
    by (simp add: one_dial_per_peer_def)
  have o1: "one_dial_per_peer \<lparr> pendingDials = [dialQ] \<rparr>"
    by (simp add: one_dial_per_peer_def dialQ_def)
  show ?thesis
    using dial_dedup [OF demo_Q, of dialQ "\<lparr> pendingDials = [dialQ] \<rparr>" "''2''" "''1''"]
      dial_dedup [OF demo_Q, of dialQ "\<lparr> pendingDials = [] \<rparr>" "''1''" "''1''"]
      none inq f o0 o1
    by (simp add: dialQ_def)
qed

text \<open>
  The key is not "the peer id if present, else the exact address list": a dial to
  \<^verbatim>\<open>QmS\<close>, for which no dial is pending, joins the pending dial to \<^verbatim>\<open>QmQ\<close>, whose
  addresses have the same string forms.
\<close>

theorem dial_dedup_counterexample:
  "dial demo_components \<lparr> pendingDials = [dialQ] \<rparr> (Some ''QmS'') [] ''2''
     = (Inr (pd_id dialQ), \<lparr> pendingDials = [dialQ] \<rparr>)
   \<and> pd_peerId dialQ = Some ''QmQ''
   \<and> calculateMultiaddrs demo_components (Some ''QmS'')
        (map (\<lambda>m. \<lparr> multiaddr = m, isCertified = False \<rparr>) [])
      = Inr [\<lparr> multiaddr = sock_addr, isCertified = False \<rparr>]
   \<and> find (spec_dial_matches (Some ''QmS'') [\<lparr> multiaddr = sock_addr, isCertified = False \<rparr>])
        [dialQ] = None"
  using demo_S
  by (simp add: dial_def dial_matches_def dialQ_def spec_dial_matches_def
      toString_def sock_addr_def component_str_def)

subsection \<open>Dial queue: the addresses to dial\<close>

text \<open>
  Claim C7, as the code has it. For a dial with a peer id whose address list is produced:
  the list deduplicated by string form, before the peer id is appended, has no two equal
  strings, and the flag of each of its entries is the OR of the flags of the filtered
  addresses with that string; every entry of the result is one of these with its flag,
  unchanged when its last protocol is a path or when the library's \<^verbatim>\<open>getPeerId()\<close>
  gives a peer id for it (of any peer), and with \<^verbatim>\<open>/p2p/<peerId>\<close> appended when
  \<^verbatim>\<open>getPeerId()\<close> gives none; no entry of the result is denied by
  \<^verbatim>\<open>denyDialMultiaddr\<close>; and the result is ordered by the address sorter, when that is
  a consistent comparator.
\<close>

theorem calculateMultiaddrs_list:
  assumes calc: "calculateMultiaddrs c (Some p) addrs = Inr out"
    and loaded: "loaded = (if length addrs = 0 then addressBook_get c p else addrs)"
  shows "distinct (map addr_str (dedupedMultiaddrs c loaded))
     \<and> (\<forall>d \<in> set (dedupedMultiaddrs c loaded).
           isCertified d = (\<exists>b \<in> set (filteredAddrs c loaded).
                              addr_str b = addr_str d \<and> isCertified b))
     \<and> (\<forall>e \<in> set out. \<exists>d \<in> set (dedupedMultiaddrs c loaded).
           isCertified e = isCertified d
           \<and> multiaddr e = (if lastProtoPath (multiaddr d) \<or> dq_getPeerId c (multiaddr d) \<noteq> None
                             then multiaddr d
                             else multiaddr d @ [Component ''p2p'' (Some p)]))
     \<and> (\<forall>e \<in> set out. \<forall>deny. denyDialMultiaddr c = Some deny \<longrightarrow> \<not> deny (multiaddr e))
     \<and> (consistent_comparator (addressSorter c)
           \<longrightarrow> sorted_wrt (\<lambda>a b. addressSorter c a b \<le> 0) out)"
proof -
  let ?deduped = "dedupedMultiaddrs c loaded"
  from calc loaded have rest: "addrsToDial_of c (Some p) loaded = Inr out"
    by (simp add: calculateMultiaddrs_def split: if_splits)
  then have out: "out = js_sort (addressSorter c)
                          (filter (\<lambda>addr. \<not> gated c addr) (map (appendPeerId c p) ?deduped))"
    by (simp add: addrsToDial_of_def Let_def split: if_splits)
  have set_out: "set out = {e \<in> appendPeerId c p ` set ?deduped. \<not> gated c e}"
    unfolding out by (auto simp: set_js_sort)
  have 1: "distinct (map addr_str ?deduped)"
    unfolding dedupedMultiaddrs_def by (rule deduped_distinct)
  have 2: "\<forall>d \<in> set ?deduped.
           isCertified d = (\<exists>b \<in> set (filteredAddrs c loaded).
                              addr_str b = addr_str d \<and> isCertified b)"
    unfolding dedupedMultiaddrs_def using deduped_certified by blast
  have 3: "\<forall>e \<in> set out. \<exists>d \<in> set ?deduped.
           isCertified e = isCertified d
           \<and> multiaddr e = (if lastProtoPath (multiaddr d) \<or> dq_getPeerId c (multiaddr d) \<noteq> None
                             then multiaddr d
                             else multiaddr d @ [Component ''p2p'' (Some p)])"
  proof
    fix e assume "e \<in> set out"
    with set_out obtain d where d: "d \<in> set ?deduped" "e = appendPeerId c p d" by auto
    with appendPeerId_shape [of c p d] show "\<exists>d \<in> set ?deduped.
           isCertified e = isCertified d
           \<and> multiaddr e = (if lastProtoPath (multiaddr d) \<or> dq_getPeerId c (multiaddr d) \<noteq> None
                             then multiaddr d
                             else multiaddr d @ [Component ''p2p'' (Some p)])"
      by blast
  qed
  have 4: "\<forall>e \<in> set out. \<forall>deny. denyDialMultiaddr c = Some deny \<longrightarrow> \<not> deny (multiaddr e)"
  proof (intro ballI allI impI)
    fix e deny assume "e \<in> set out" "denyDialMultiaddr c = Some deny"
    with set_out show "\<not> deny (multiaddr e)" by (simp add: gated_def)
  qed
  have 5: "consistent_comparator (addressSorter c)
           \<longrightarrow> sorted_wrt (\<lambda>a b. addressSorter c a b \<le> 0) out"
    unfolding out using sorted_js_sort by blast
  from 1 2 3 4 5 show ?thesis by blast
qed

lemma demo_P:
  "calculateMultiaddrs (demo_components\<lparr> dq_getPeerId := g \<rparr>) (Some ''QmP'') []
     = Inr [\<lparr> multiaddr = encapsulate_p2p tcp_addr ''QmP'', isCertified = False \<rparr>,
            \<lparr> multiaddr = encapsulate_p2p tcp_addr ''QmP'', isCertified = True \<rparr>]"
  if "g = getPeerId_last \<or> g = getPeerId_target"
  using that
  by (auto simp: calculateMultiaddrs_def addrsToDial_of_def dedupedMultiaddrs_def
      filteredAddrs_def resolvedAddresses_def resolve_address_def demo_components_def
      demo_book_def toString_def tcp_addr_def component_str_def encapsulate_p2p_def
      appendPeerId_def lastProtoPath_def getPeerId_target_def getPeerId_last_def
      gated_def js_sort_def Let_def)

lemma demo_R:
  "calculateMultiaddrs (demo_components\<lparr> dq_getPeerId := g \<rparr>) (Some ''QmR'') []
     = Inr [\<lparr> multiaddr = encapsulate_p2p tcp_addr ''QmQ'', isCertified = False \<rparr>]"
  if "g = getPeerId_last \<or> g = getPeerId_target"
  using that
  by (auto simp: calculateMultiaddrs_def addrsToDial_of_def dedupedMultiaddrs_def
      filteredAddrs_def resolvedAddresses_def resolve_address_def demo_components_def
      demo_book_def toString_def tcp_addr_def component_str_def encapsulate_p2p_def
      appendPeerId_def lastProtoPath_def getPeerId_target_def getPeerId_last_def
      gated_def js_sort_def Let_def)

lemma demo_deduped_T:
  "dedupedMultiaddrs gated_components (demo_book ''QmT'')
     = [\<lparr> multiaddr = ws_addr, isCertified = False \<rparr>,
        \<lparr> multiaddr = tcp_addr, isCertified = True \<rparr>,
        \<lparr> multiaddr = private_addr, isCertified = False \<rparr>]"
  by (simp add: dedupedMultiaddrs_def
      filteredAddrs_def resolvedAddresses_def resolve_address_def gated_components_def
      demo_book_def toString_def tcp_addr_def ws_addr_def private_addr_def
      component_str_def Let_def)

lemma demo_T:
  "calculateMultiaddrs gated_components (Some ''QmT'') []
     = Inr [\<lparr> multiaddr = encapsulate_p2p tcp_addr ''QmT'', isCertified = True \<rparr>,
            \<lparr> multiaddr = encapsulate_p2p ws_addr ''QmT'', isCertified = False \<rparr>]"
proof -
  have "addrsToDial_of gated_components (Some ''QmT'') (demo_book ''QmT'')
     = Inr [\<lparr> multiaddr = encapsulate_p2p tcp_addr ''QmT'', isCertified = True \<rparr>,
            \<lparr> multiaddr = encapsulate_p2p ws_addr ''QmT'', isCertified = False \<rparr>]"
    unfolding addrsToDial_of_def demo_deduped_T
    by (simp add: gated_components_def appendPeerId_def lastProtoPath_def getPeerId_last_def
        tcp_addr_def ws_addr_def private_addr_def encapsulate_p2p_def gated_def
        deny_private_def js_sort_def certified_first_def Let_def)
  then show ?thesis
    by (simp add: calculateMultiaddrs_def gated_components_def)
qed

text \<open>The two behaviours of \<^verbatim>\<open>getPeerId()\<close> on a relay address: the one leaves it as it
  is, the other appends the peer id.\<close>

lemma demo_relay:
  "appendPeerId gated_components ''QmT'' \<lparr> multiaddr = relay_addr, isCertified = False \<rparr>
     = \<lparr> multiaddr = relay_addr, isCertified = False \<rparr>
   \<and> appendPeerId demo_components ''QmT'' \<lparr> multiaddr = relay_addr, isCertified = False \<rparr>
     = \<lparr> multiaddr = encapsulate_p2p relay_addr ''QmT'', isCertified = False \<rparr>"
  by (simp add: appendPeerId_def gated_components_def demo_components_def relay_addr_def
      lastProtoPath_def getPeerId_last_def getPeerId_target_def)

theorem calculateMultiaddrs_list_witness:
  "calculateMultiaddrs gated_components (Some ''QmT'') []
     = Inr [\<lparr> multiaddr = encapsulate_p2p tcp_addr ''QmT'', isCertified = True \<rparr>,
            \<lparr> multiaddr = encapsulate_p2p ws_addr ''QmT'', isCertified = False \<rparr>]
   \<and> addressBook_get gated_components ''QmT''
       = [\<lparr> multiaddr = ws_addr, isCertified = False \<rparr>,
          \<lparr> multiaddr = tcp_addr, isCertified = False \<rparr>,
          \<lparr> multiaddr = tcp_addr, isCertified = True \<rparr>,
          \<lparr> multiaddr = private_addr, isCertified = False \<rparr>]
   \<and> dedupedMultiaddrs gated_components (demo_book ''QmT'')
       = [\<lparr> multiaddr = ws_addr, isCertified = False \<rparr>,
          \<lparr> multiaddr = tcp_addr, isCertified = True \<rparr>,
          \<lparr> multiaddr = private_addr, isCertified = False \<rparr>]
   \<and> distinct (map addr_str (dedupedMultiaddrs gated_components (demo_book ''QmT'')))
   \<and> denyDialMultiaddr gated_components = Some deny_private
   \<and> deny_private (encapsulate_p2p private_addr ''QmT'')
   \<and> \<not> deny_private (encapsulate_p2p tcp_addr ''QmT'')
   \<and> \<not> deny_private (encapsulate_p2p ws_addr ''QmT'')
   \<and> consistent_comparator (addressSorter gated_components)
   \<and> sorted_wrt (\<lambda>a b. addressSorter gated_components a b \<le> 0)
        [\<lparr> multiaddr = encapsulate_p2p tcp_addr ''QmT'', isCertified = True \<rparr>,
         \<lparr> multiaddr = encapsulate_p2p ws_addr ''QmT'', isCertified = False \<rparr>]
   \<and> certified_first \<lparr> multiaddr = encapsulate_p2p ws_addr ''QmT'', isCertified = False \<rparr>
        \<lparr> multiaddr = encapsulate_p2p tcp_addr ''QmT'', isCertified = True \<rparr> = 1"
proof -
  let ?out = "[\<lparr> multiaddr = encapsulate_p2p tcp_addr ''QmT'', isCertified = True \<rparr>,
               \<lparr> multiaddr = encapsulate_p2p ws_addr ''QmT'', isCertified = False \<rparr>]"
  have book: "addressBook_get gated_components ''QmT''
       = [\<lparr> multiaddr = ws_addr, isCertified = False \<rparr>,
          \<lparr> multiaddr = tcp_addr, isCertified = False \<rparr>,
          \<lparr> multiaddr = tcp_addr, isCertified = True \<rparr>,
          \<lparr> multiaddr = private_addr, isCertified = False \<rparr>]"
    by (simp add: gated_components_def demo_book_def)
  have l: "demo_book ''QmT''
             = (if length ([]::Address list) = 0 then addressBook_get gated_components ''QmT'' else [])"
    by (simp add: gated_components_def)
  have cc: "consistent_comparator (addressSorter gated_components)"
    by (auto simp: consistent_comparator_def gated_components_def certified_first_def
        split: if_splits)
  have g: "denyDialMultiaddr gated_components = Some deny_private"
    by (simp add: gated_components_def)
  have dp: "deny_private (encapsulate_p2p private_addr ''QmT'')"
    by (simp add: deny_private_def encapsulate_p2p_def private_addr_def)
  have cmp: "certified_first \<lparr> multiaddr = encapsulate_p2p ws_addr ''QmT'', isCertified = False \<rparr>
        \<lparr> multiaddr = encapsulate_p2p tcp_addr ''QmT'', isCertified = True \<rparr> = 1"
    by (simp add: certified_first_def)
  note inst = calculateMultiaddrs_list [OF demo_T l]
  from inst have d: "distinct (map addr_str (dedupedMultiaddrs gated_components (demo_book ''QmT'')))"
    by (rule conjunct1)
  from inst have "\<forall>e \<in> set ?out. \<forall>deny. denyDialMultiaddr gated_components = Some deny
                     \<longrightarrow> \<not> deny (multiaddr e)"
    by blast
  with g have nd: "\<not> deny_private (encapsulate_p2p tcp_addr ''QmT'')"
      "\<not> deny_private (encapsulate_p2p ws_addr ''QmT'')"
    by auto
  from inst cc have srt: "sorted_wrt (\<lambda>a b. addressSorter gated_components a b \<le> 0) ?out"
    by blast
  from demo_T book demo_deduped_T d g dp nd cc srt cmp show ?thesis by blast
qed

text \<open>
  Under either behaviour of \<^verbatim>\<open>getPeerId()\<close>, the result can hold two entries with the
  same string (an address stored with and without the peer id: the suffix is appended
  after the deduplication, and their flags are not merged), and an entry that is not a
  path and does not end in the target's peer id (it holds another peer's).
\<close>

theorem calculateMultiaddrs_list_counterexample:
  "calculateMultiaddrs (demo_components\<lparr> dq_getPeerId := getPeerId_last \<rparr>) (Some ''QmP'') []
     = Inr [\<lparr> multiaddr = encapsulate_p2p tcp_addr ''QmP'', isCertified = False \<rparr>,
            \<lparr> multiaddr = encapsulate_p2p tcp_addr ''QmP'', isCertified = True \<rparr>]
   \<and> calculateMultiaddrs (demo_components\<lparr> dq_getPeerId := getPeerId_target \<rparr>) (Some ''QmP'') []
     = Inr [\<lparr> multiaddr = encapsulate_p2p tcp_addr ''QmP'', isCertified = False \<rparr>,
            \<lparr> multiaddr = encapsulate_p2p tcp_addr ''QmP'', isCertified = True \<rparr>]
   \<and> \<not> distinct (map addr_str
          [\<lparr> multiaddr = encapsulate_p2p tcp_addr ''QmP'', isCertified = False \<rparr>,
           \<lparr> multiaddr = encapsulate_p2p tcp_addr ''QmP'', isCertified = True \<rparr>])
   \<and> calculateMultiaddrs (demo_components\<lparr> dq_getPeerId := getPeerId_last \<rparr>) (Some ''QmR'') []
     = Inr [\<lparr> multiaddr = encapsulate_p2p tcp_addr ''QmQ'', isCertified = False \<rparr>]
   \<and> calculateMultiaddrs (demo_components\<lparr> dq_getPeerId := getPeerId_target \<rparr>) (Some ''QmR'') []
     = Inr [\<lparr> multiaddr = encapsulate_p2p tcp_addr ''QmQ'', isCertified = False \<rparr>]
   \<and> \<not> lastProtoPath (encapsulate_p2p tcp_addr ''QmQ'')
   \<and> toString (encapsulate_p2p tcp_addr ''QmQ'') = ''/ip4/1.2.3.4/tcp/4001/p2p/QmQ''
   \<and> last (encapsulate_p2p tcp_addr ''QmQ'') \<noteq> Component ''p2p'' (Some ''QmR'')"
proof -
  have 1: "getPeerId_last = getPeerId_last \<or> getPeerId_last = getPeerId_target" by simp
  have 2: "getPeerId_target = getPeerId_last \<or> getPeerId_target = getPeerId_target" by simp
  show ?thesis
    using demo_P [OF 1] demo_P [OF 2] demo_R [OF 1] demo_R [OF 2]
    by (simp add: addr_str_def lastProtoPath_def encapsulate_p2p_def tcp_addr_def
        toString_def component_str_def)
qed

subsection \<open>Address manager: observed addresses\<close>

lemma set_addrSet_of: "set (addrSet_of mas acc) = set acc \<union> toString ` set mas"
  by (induction mas arbitrary: acc) (auto simp: Let_def)

lemma map_of_remove:
  "map_of (filter (\<lambda>kv. fst kv \<noteq> s) m) k = (if k = s then None else map_of m k)"
  by (induction m) auto

lemma getAddresses_set:
  assumes "am_announceFilter am = (\<lambda>addrs. addrs)"
  shows "set (getAddresses am) = (\<lambda>ma. advertised am (toString ma)) ` set (candidates am)"
  using assms by (auto simp: getAddresses_def set_addrSet_of)

lemma confident_observed_set:
  assumes "distinct (map fst (am_observed am))"
  shows "set (confident_observed am) = {am_parse am k | k. map_of (am_observed am) k = Some True}"
proof -
  have "(k, b) \<in> set (am_observed am) \<longleftrightarrow> map_of (am_observed am) k = Some b" for k b
    using assms by (auto intro: map_of_is_SomeI dest: map_of_SomeD)
  then show ?thesis
    by (force simp: confident_observed_def)
qed

lemma candidates_set:
  "set (candidates am) = set (base_addrs am) \<union> set (confident_observed am)
     \<union> set (concat (map (mapped_addr am) (base_addrs am @ confident_observed am)))"
  by (simp add: candidates_def Let_def Un_assoc)

text \<open>
  Claim C8, as the code has it. With the identity announce filter: an address of the
  observed map that is marked confident is in \<^verbatim>\<open>getAddresses()\<close>, in its advertised
  form; every address of \<^verbatim>\<open>getAddresses()\<close> is the advertised form of an announce (or
  transport) address, of a confident observed address, or of the DNS-mapped form of one
  of these, so that an observed address that is not confident appears only as one of
  the others; and the mark of an address is set by \<^verbatim>\<open>confirmObservedAddr\<close>, left as it
  is (or created unset) by \<^verbatim>\<open>addObservedAddr\<close> and dropped with the entry by
  \<^verbatim>\<open>removeObservedAddr\<close>, the other entries staying as they are.
\<close>

theorem observed_addr_promotion:
  assumes idf: "am_announceFilter am = (\<lambda>addrs. addrs)"
    and dist: "distinct (map fst (am_observed am))"
    and key: "k = toString (stripPeerId (am_getPeerId am) a (am_peerId am))"
  shows "(map_of (am_observed am) s = Some True
            \<longrightarrow> advertised am (toString (am_parse am s)) \<in> set (getAddresses am))
     \<and> (\<forall>x \<in> set (getAddresses am). \<exists>ma. x = advertised am (toString ma)
            \<and> (ma \<in> set (base_addrs am)
                \<or> (\<exists>s. map_of (am_observed am) s = Some True \<and> ma = am_parse am s)
                \<or> ma \<in> set (concat (map (mapped_addr am)
                                        (base_addrs am @ confident_observed am)))))
     \<and> map_of (am_observed (addObservedAddr am a)) k
          = (case map_of (am_observed am) k of None \<Rightarrow> Some False | Some c \<Rightarrow> Some c)
     \<and> map_of (am_observed (confirmObservedAddr am a)) k = Some True
     \<and> map_of (am_observed (removeObservedAddr am a)) k = None
     \<and> (\<forall>k'. k' \<noteq> k \<longrightarrow>
            map_of (am_observed (addObservedAddr am a)) k' = map_of (am_observed am) k'
          \<and> map_of (am_observed (confirmObservedAddr am a)) k' = map_of (am_observed am) k'
          \<and> map_of (am_observed (removeObservedAddr am a)) k' = map_of (am_observed am) k')
     \<and> distinct (map fst (am_observed (addObservedAddr am a)))
     \<and> distinct (map fst (am_observed (confirmObservedAddr am a)))
     \<and> distinct (map fst (am_observed (removeObservedAddr am a)))"
proof -
  note gs = getAddresses_set [OF idf]
  note cs = confident_observed_set [OF dist]
  have 1: "map_of (am_observed am) s = Some True
            \<longrightarrow> advertised am (toString (am_parse am s)) \<in> set (getAddresses am)"
  proof
    assume "map_of (am_observed am) s = Some True"
    then have "am_parse am s \<in> set (confident_observed am)" unfolding cs by blast
    then have "am_parse am s \<in> set (candidates am)" unfolding candidates_set by blast
    then show "advertised am (toString (am_parse am s)) \<in> set (getAddresses am)"
      unfolding gs by blast
  qed
  have 2: "\<forall>x \<in> set (getAddresses am). \<exists>ma. x = advertised am (toString ma)
            \<and> (ma \<in> set (base_addrs am)
                \<or> (\<exists>s. map_of (am_observed am) s = Some True \<and> ma = am_parse am s)
                \<or> ma \<in> set (concat (map (mapped_addr am)
                                        (base_addrs am @ confident_observed am))))"
  proof
    fix x assume "x \<in> set (getAddresses am)"
    then obtain ma where x: "x = advertised am (toString ma)" and "ma \<in> set (candidates am)"
      unfolding gs by blast
    then have "ma \<in> set (base_addrs am) \<or> ma \<in> set (confident_observed am)
        \<or> ma \<in> set (concat (map (mapped_addr am) (base_addrs am @ confident_observed am)))"
      unfolding candidates_set by blast
    then have "ma \<in> set (base_addrs am)
                \<or> (\<exists>s. map_of (am_observed am) s = Some True \<and> ma = am_parse am s)
                \<or> ma \<in> set (concat (map (mapped_addr am)
                                        (base_addrs am @ confident_observed am)))"
      unfolding cs by blast
    with x show "\<exists>ma. x = advertised am (toString ma)
            \<and> (ma \<in> set (base_addrs am)
                \<or> (\<exists>s. map_of (am_observed am) s = Some True \<and> ma = am_parse am s)
                \<or> ma \<in> set (concat (map (mapped_addr am)
                                        (base_addrs am @ confident_observed am))))"
      by blast
  qed
  have 3: "map_of (am_observed (addObservedAddr am a)) k
          = (case map_of (am_observed am) k of None \<Rightarrow> Some False | Some c \<Rightarrow> Some c)"
    by (auto simp: addObservedAddr_def key Let_def map_of_map_set)
  have 4: "map_of (am_observed (confirmObservedAddr am a)) k = Some True"
    by (simp add: confirmObservedAddr_def key Let_def map_of_map_set)
  have 5: "map_of (am_observed (removeObservedAddr am a)) k = None"
    by (simp add: removeObservedAddr_def key Let_def map_of_remove)
  have 6: "\<forall>k'. k' \<noteq> k \<longrightarrow>
            map_of (am_observed (addObservedAddr am a)) k' = map_of (am_observed am) k'
          \<and> map_of (am_observed (confirmObservedAddr am a)) k' = map_of (am_observed am) k'
          \<and> map_of (am_observed (removeObservedAddr am a)) k' = map_of (am_observed am) k'"
    by (simp add: addObservedAddr_def confirmObservedAddr_def removeObservedAddr_def key
        Let_def map_of_map_set map_of_remove)
  have 7: "distinct (map fst (am_observed (addObservedAddr am a)))"
    using dist by (simp add: addObservedAddr_def Let_def distinct_map_set)
  have 8: "distinct (map fst (am_observed (confirmObservedAddr am a)))"
    using dist by (simp add: confirmObservedAddr_def Let_def distinct_map_set)
  have 9: "distinct (map fst (am_observed (removeObservedAddr am a)))"
    using dist by (simp add: removeObservedAddr_def Let_def distinct_map_filter)
  from 1 2 3 4 5 6 7 8 9 show ?thesis by blast
qed

lemma str_tcp: "toString tcp_addr = ''/ip4/1.2.3.4/tcp/4001''"
  by (simp add: toString_def tcp_addr_def component_str_def)

lemma strip_tcp: "stripPeerId getPeerId_target tcp_addr ''QmSelf'' = tcp_addr"
  by (simp add: stripPeerId_def getPeerId_target_def tcp_addr_def)

lemma demo_confirmed:
  "confirmObservedAddr (addObservedAddr demo_manager tcp_addr) tcp_addr
     = demo_manager\<lparr> am_observed := [(''/ip4/1.2.3.4/tcp/4001'', True)], am_updates := 1 \<rparr>"
  by (simp add: confirmObservedAddr_def addObservedAddr_def demo_manager_def strip_tcp str_tcp Let_def)

lemma demo_confirmed_addresses:
  "getAddresses (demo_manager\<lparr> am_observed := [(''/ip4/1.2.3.4/tcp/4001'', True)], am_updates := 1 \<rparr>)
     = [encapsulate_p2p tcp_addr ''QmSelf'']"
  by (simp add: getAddresses_def candidates_def base_addrs_def getAnnounceAddrs_def
      confident_observed_def mapped_addr_def demo_manager_def demo_parse_def advertised_def
      str_tcp Let_def)
     (simp add: tcp_addr_def lastProtoPath_def getPeerId_target_def)


theorem observed_addr_promotion_witness:
  "confirmObservedAddr (addObservedAddr demo_manager tcp_addr) tcp_addr
     = demo_manager\<lparr> am_observed := [(''/ip4/1.2.3.4/tcp/4001'', True)], am_updates := 1 \<rparr>
   \<and> map_of (am_observed (confirmObservedAddr (addObservedAddr demo_manager tcp_addr) tcp_addr))
        ''/ip4/1.2.3.4/tcp/4001'' = Some True
   \<and> getAddresses (confirmObservedAddr (addObservedAddr demo_manager tcp_addr) tcp_addr)
       = [encapsulate_p2p tcp_addr ''QmSelf'']
   \<and> encapsulate_p2p tcp_addr ''QmSelf''
       \<in> set (getAddresses (confirmObservedAddr (addObservedAddr demo_manager tcp_addr) tcp_addr))
   \<and> map_of (am_observed (addObservedAddr demo_manager tcp_addr)) ''/ip4/1.2.3.4/tcp/4001''
       = Some False
   \<and> getAddresses (addObservedAddr demo_manager tcp_addr) = []"
proof -
  let ?am1 = "addObservedAddr demo_manager tcp_addr"
  let ?am2 = "demo_manager\<lparr> am_observed := [(''/ip4/1.2.3.4/tcp/4001'', True)], am_updates := 1 \<rparr>"
  have am1: "?am1 = demo_manager\<lparr> am_observed := [(''/ip4/1.2.3.4/tcp/4001'', False)] \<rparr>"
    by (simp add: addObservedAddr_def demo_manager_def strip_tcp str_tcp Let_def)
  have idf: "am_announceFilter ?am2 = (\<lambda>addrs. addrs)" by (simp add: demo_manager_def)
  have dist: "distinct (map fst (am_observed ?am2))" by simp
  have key: "''/ip4/1.2.3.4/tcp/4001'' = toString (stripPeerId (am_getPeerId ?am2) tcp_addr (am_peerId ?am2))"
    by (simp add: demo_manager_def strip_tcp str_tcp)
  have obs: "map_of (am_observed ?am2) ''/ip4/1.2.3.4/tcp/4001'' = Some True" by simp
  have adv: "advertised ?am2 (toString (am_parse ?am2 ''/ip4/1.2.3.4/tcp/4001''))
               = encapsulate_p2p tcp_addr ''QmSelf''"
    by (simp add: advertised_def demo_manager_def demo_parse_def str_tcp Let_def)
       (simp add: tcp_addr_def lastProtoPath_def getPeerId_target_def)
  from observed_addr_promotion [OF idf dist key, of "''/ip4/1.2.3.4/tcp/4001''"] obs
  have "advertised ?am2 (toString (am_parse ?am2 ''/ip4/1.2.3.4/tcp/4001''))
          \<in> set (getAddresses ?am2)"
    by blast
  then have mem: "encapsulate_p2p tcp_addr ''QmSelf'' \<in> set (getAddresses ?am2)"
    unfolding adv .
  have empty: "getAddresses ?am1 = []"
    unfolding am1
    by (simp add: getAddresses_def candidates_def base_addrs_def getAnnounceAddrs_def
        confident_observed_def demo_manager_def)
  have o1: "map_of (am_observed ?am1) ''/ip4/1.2.3.4/tcp/4001'' = Some False"
    unfolding am1 by simp
  from demo_confirmed demo_confirmed_addresses obs mem empty o1 show ?thesis by simp
qed

text \<open>
  An observed address that was never confirmed appears when it is also announced; and
  an address confirmed once, then removed and observed again, does not appear.
\<close>

theorem observed_addr_promotion_counterexample:
  "map_of (am_observed (addObservedAddr
             (demo_manager\<lparr> am_announce := [''/ip4/1.2.3.4/tcp/4001''] \<rparr>) tcp_addr))
       ''/ip4/1.2.3.4/tcp/4001'' = Some False
   \<and> getAddresses (addObservedAddr
        (demo_manager\<lparr> am_announce := [''/ip4/1.2.3.4/tcp/4001''] \<rparr>) tcp_addr)
       = [encapsulate_p2p tcp_addr ''QmSelf'']
   \<and> getAddresses (confirmObservedAddr demo_manager tcp_addr)
       = [encapsulate_p2p tcp_addr ''QmSelf'']
   \<and> map_of (am_observed (addObservedAddr (removeObservedAddr
                (confirmObservedAddr demo_manager tcp_addr) tcp_addr) tcp_addr))
       ''/ip4/1.2.3.4/tcp/4001'' = Some False
   \<and> getAddresses (addObservedAddr (removeObservedAddr
        (confirmObservedAddr demo_manager tcp_addr) tcp_addr) tcp_addr) = []"
proof -
  have a: "addObservedAddr (demo_manager\<lparr> am_announce := [''/ip4/1.2.3.4/tcp/4001''] \<rparr>) tcp_addr
      = demo_manager\<lparr> am_announce := [''/ip4/1.2.3.4/tcp/4001''],
                       am_observed := [(''/ip4/1.2.3.4/tcp/4001'', False)] \<rparr>"
    by (simp add: addObservedAddr_def demo_manager_def strip_tcp str_tcp Let_def)
  have ga: "getAddresses (demo_manager\<lparr> am_announce := [''/ip4/1.2.3.4/tcp/4001''],
                       am_observed := [(''/ip4/1.2.3.4/tcp/4001'', False)] \<rparr>)
      = [encapsulate_p2p tcp_addr ''QmSelf'']"
    by (simp add: getAddresses_def candidates_def base_addrs_def getAnnounceAddrs_def
        confident_observed_def mapped_addr_def demo_manager_def demo_parse_def advertised_def
        str_tcp Let_def)
       (simp add: tcp_addr_def lastProtoPath_def getPeerId_target_def)
  have c: "confirmObservedAddr demo_manager tcp_addr
      = demo_manager\<lparr> am_observed := [(''/ip4/1.2.3.4/tcp/4001'', True)], am_updates := 1 \<rparr>"
    by (simp add: confirmObservedAddr_def demo_manager_def strip_tcp str_tcp Let_def)
  have r: "addObservedAddr (removeObservedAddr
        (demo_manager\<lparr> am_observed := [(''/ip4/1.2.3.4/tcp/4001'', True)], am_updates := 1 \<rparr>)
        tcp_addr) tcp_addr
      = demo_manager\<lparr> am_observed := [(''/ip4/1.2.3.4/tcp/4001'', False)], am_updates := 1 \<rparr>"
    by (simp add: addObservedAddr_def removeObservedAddr_def demo_manager_def strip_tcp str_tcp Let_def)
  have gr: "getAddresses
        (demo_manager\<lparr> am_observed := [(''/ip4/1.2.3.4/tcp/4001'', False)], am_updates := 1 \<rparr>) = []"
    by (simp add: getAddresses_def candidates_def base_addrs_def getAnnounceAddrs_def
        confident_observed_def demo_manager_def)
  show ?thesis
    unfolding a c r using ga gr demo_confirmed_addresses by simp
qed

subsection \<open>Identify service\<close>




























text \<open>
  Claim C3, as the code has it. An identify message with no public key fails with
  \<^verbatim>\<open>ERR_MISSING_PUBLIC_KEY\<close>; one whose key derives a peer id other than the
  connection's remote peer, or the node's own peer id, fails with
  \<^verbatim>\<open>ERR_INVALID_PEER\<close>. In each case nothing the service acts on changes: no
  \<^verbatim>\<open>peer:identify\<close> event, no update of the peer store, no observed address.
\<close>

theorem identify_invalid_peer:
  "(msg_publicKey message = None
      \<longrightarrow> identify c w connection (Inr message)
          = (Inl (CodeError ''public key was missing from identify message''
                    ''ERR_MISSING_PUBLIC_KEY''), w, connection))
   \<and> (msg_publicKey message = Some key \<and> peerIdFromKeys c key \<noteq> remotePeer connection
      \<longrightarrow> identify c w connection (Inr message)
          = (Inl (CodeError ''identified peer does not match the expected peer''
                    ''ERR_INVALID_PEER''), w, connection))
   \<and> (msg_publicKey message = Some key \<and> peerIdFromKeys c key = id_peerId c
      \<longrightarrow> (\<exists>text. identify c w connection (Inr message)
                   = (Inl (CodeError text ''ERR_INVALID_PEER''), w, connection)))"
  by (auto simp: identify_def Let_def)

theorem identify_invalid_peer_witness:
  "msg_publicKey ((demo_message 5)\<lparr> msg_publicKey := None \<rparr>) = None
   \<and> identify demo_identify demo_world (demo_connection ''QmP'')
        (Inr ((demo_message 5)\<lparr> msg_publicKey := None \<rparr>))
      = (Inl (CodeError ''public key was missing from identify message''
                ''ERR_MISSING_PUBLIC_KEY''), demo_world, demo_connection ''QmP'')
   \<and> peerIdFromKeys demo_identify ''P'' \<noteq> remotePeer (demo_connection ''QmQ'')
   \<and> identify demo_identify demo_world (demo_connection ''QmQ'') (Inr (demo_message 5))
      = (Inl (CodeError ''identified peer does not match the expected peer''
                ''ERR_INVALID_PEER''), demo_world, demo_connection ''QmQ'')
   \<and> peerIdFromKeys demo_identify ''Self'' = id_peerId demo_identify
   \<and> identify demo_identify demo_world (demo_connection ''QmSelf'')
        (Inr ((demo_message 5)\<lparr> msg_publicKey := Some ''Self'' \<rparr>))
      = (Inl (CodeError ''identified peer is our own peer id?''
                ''ERR_INVALID_PEER''), demo_world, demo_connection ''QmSelf'')"
proof -
  have k0: "msg_publicKey ((demo_message 5)\<lparr> msg_publicKey := None \<rparr>) = None" by simp
  have k1: "msg_publicKey (demo_message 5) = Some ''P''
      \<and> peerIdFromKeys demo_identify ''P'' \<noteq> remotePeer (demo_connection ''QmQ'')"
    by (simp add: demo_message_def demo_identify_def demo_connection_def)
  have k2: "peerIdFromKeys demo_identify ''Self'' = id_peerId demo_identify"
    by (simp add: demo_identify_def)
  have own: "identify demo_identify demo_world (demo_connection ''QmSelf'')
        (Inr ((demo_message 5)\<lparr> msg_publicKey := Some ''Self'' \<rparr>))
      = (Inl (CodeError ''identified peer is our own peer id?''
                ''ERR_INVALID_PEER''), demo_world, demo_connection ''QmSelf'')"
    by (simp add: identify_def demo_identify_def demo_connection_def)
  from identify_invalid_peer [of "(demo_message 5)\<lparr> msg_publicKey := None \<rparr>"
      demo_identify demo_world "demo_connection ''QmP''"] k0
  have a: "identify demo_identify demo_world (demo_connection ''QmP'')
        (Inr ((demo_message 5)\<lparr> msg_publicKey := None \<rparr>))
      = (Inl (CodeError ''public key was missing from identify message''
                ''ERR_MISSING_PUBLIC_KEY''), demo_world, demo_connection ''QmP'')"
    by blast
  from identify_invalid_peer [of "demo_message 5" demo_identify demo_world
      "demo_connection ''QmQ''" "''P''"] k1
  have b: "identify demo_identify demo_world (demo_connection ''QmQ'') (Inr (demo_message 5))
      = (Inl (CodeError ''identified peer does not match the expected peer''
                ''ERR_INVALID_PEER''), demo_world, demo_connection ''QmQ'')"
    by blast
  from k0 a k1 b k2 own show ?thesis by blast
qed

text \<open>A message with no public key does not fail with \<^verbatim>\<open>ERR_INVALID_PEER\<close>.\<close>

theorem identify_invalid_peer_counterexample:
  "msg_publicKey ((demo_message 5)\<lparr> msg_publicKey := None \<rparr>) = None
   \<and> fst (identify demo_identify demo_world (demo_connection ''QmP'')
        (Inr ((demo_message 5)\<lparr> msg_publicKey := None \<rparr>)))
      = Inl (CodeError ''public key was missing from identify message''
                ''ERR_MISSING_PUBLIC_KEY'')
   \<and> err_code (CodeError ''public key was missing from identify message''
                ''ERR_MISSING_PUBLIC_KEY'') \<noteq> Some ''ERR_INVALID_PEER''"
  by (simp add: identify_def CodeError_def)

lemma identify_keeps:
  "identify c w connection received = (r, w', connection')
   \<Longrightarrow> connection' = connection \<and> iw_logged w' = iw_logged w"
  by (auto simp: identify_def identify_verified_def Let_def
      split: sum.splits option.splits if_splits prod.splits)

text \<open>
  Claim C4, as the code has it. Whatever identify does on an opened connection, the
  connection is left as it was: a failure is logged and nothing else, also when it is
  the failure of a peer id that does not match the connection's remote peer.
\<close>

theorem identify_failure_logged:
  "snd (on_connection_open c w connection received) = connection
   \<and> (fst (identify c w connection received) = Inl err
        \<longrightarrow> iw_logged (fst (on_connection_open c w connection received)) = iw_logged w @ [err])
   \<and> (msg_publicKey message = Some key \<and> peerIdFromKeys c key \<noteq> remotePeer connection
        \<longrightarrow> on_connection_open c w connection (Inr message)
            = (w\<lparr> iw_logged := iw_logged w @
                     [CodeError ''identified peer does not match the expected peer''
                        ''ERR_INVALID_PEER''] \<rparr>, connection))"
proof (intro conjI impI)
  obtain r w' connection' where i: "identify c w connection received = (r, w', connection')"
    by (cases "identify c w connection received")
  from identify_keeps [OF i] have k: "connection' = connection" "iw_logged w' = iw_logged w"
    by simp_all
  from i k show "snd (on_connection_open c w connection received) = connection"
    by (cases r) (simp_all add: on_connection_open_def)
  assume "fst (identify c w connection received) = Inl err"
  with i k show "iw_logged (fst (on_connection_open c w connection received)) = iw_logged w @ [err]"
    by (simp add: on_connection_open_def)
next
  assume "msg_publicKey message = Some key \<and> peerIdFromKeys c key \<noteq> remotePeer connection"
  then show "on_connection_open c w connection (Inr message)
            = (w\<lparr> iw_logged := iw_logged w @
                     [CodeError ''identified peer does not match the expected peer''
                        ''ERR_INVALID_PEER''] \<rparr>, connection)"
    by (auto simp: on_connection_open_def identify_def Let_def)
qed

theorem identify_failure_logged_witness:
  "fst (identify demo_identify demo_world (demo_connection ''QmQ'') (Inr (demo_message 5)))
     = Inl (CodeError ''identified peer does not match the expected peer'' ''ERR_INVALID_PEER'')
   \<and> msg_publicKey (demo_message 5) = Some ''P''
   \<and> peerIdFromKeys demo_identify ''P'' \<noteq> remotePeer (demo_connection ''QmQ'')
   \<and> on_connection_open demo_identify demo_world (demo_connection ''QmQ'') (Inr (demo_message 5))
     = (demo_world\<lparr> iw_logged := iw_logged demo_world @
                     [CodeError ''identified peer does not match the expected peer''
                        ''ERR_INVALID_PEER''] \<rparr>, demo_connection ''QmQ'')
   \<and> snd (on_connection_open demo_identify demo_world (demo_connection ''QmQ'')
            (Inr (demo_message 5))) = demo_connection ''QmQ''"
proof -
  have k1: "msg_publicKey (demo_message 5) = Some ''P''
      \<and> peerIdFromKeys demo_identify ''P'' \<noteq> remotePeer (demo_connection ''QmQ'')"
    by (simp add: demo_message_def demo_identify_def demo_connection_def)
  have f: "fst (identify demo_identify demo_world (demo_connection ''QmQ'') (Inr (demo_message 5)))
     = Inl (CodeError ''identified peer does not match the expected peer'' ''ERR_INVALID_PEER'')"
    by (simp add: identify_def demo_message_def demo_identify_def demo_connection_def)
  from identify_failure_logged [of demo_identify demo_world "demo_connection ''QmQ''"
      "Inr (demo_message 5)"
      "CodeError ''identified peer does not match the expected peer'' ''ERR_INVALID_PEER''"
      "demo_message 5" "''P''"] k1 f
  show ?thesis by blast
qed

text \<open>A connection whose identified key derives another peer id than its remote peer
  stays open: the mismatch is logged, the connection is not aborted.\<close>

theorem identify_failure_logged_counterexample:
  "peerIdFromKeys demo_identify ''P'' \<noteq> remotePeer (demo_connection ''QmQ'')
   \<and> msg_publicKey (demo_message 5) = Some ''P''
   \<and> conn_status (demo_connection ''QmQ'') = Open
   \<and> conn_status (snd (on_connection_open demo_identify demo_world (demo_connection ''QmQ'')
                         (Inr (demo_message 5)))) = Open
   \<and> iw_logged (fst (on_connection_open demo_identify demo_world (demo_connection ''QmQ'')
                         (Inr (demo_message 5))))
       = [CodeError ''identified peer does not match the expected peer'' ''ERR_INVALID_PEER'']"
  by (simp add: on_connection_open_def identify_def demo_message_def demo_identify_def
      demo_connection_def demo_world_def)


end
